theory Spec2Isabelle
  imports Main "HOL-Library.Sublist" "HOL-Library.AList"
begin

section \<open>JavaScript values and errors\<close>

text \<open>
  The values that flow through \<open>API.js\<close> and \<open>websocket.js\<close>: what \<open>JSON.parse\<close> can
  return, plus \<open>undefined\<close>. A number is carried by its decimal rendering, the string that
  \<open>String(n)\<close> returns (\<open>''10.66''\<close>, \<open>''0''\<close>, \<open>''NaN''\<close>): rendering and truthiness are
  all the source does with a number. An object lists its own enumerable properties in
  the order \<open>Object.entries\<close> reports them, with distinct keys.
\<close>

datatype jsval =
    JUndefined
  | JNull
  | JBool bool
  | JNum string
  | JStr string
  | JArr "jsval list"
  | JObj "(string \<times> jsval) list"

datatype js_error =
    TypeError string
  | SyntaxError string
  | ReferenceError string
  | Error string
  | Thrown jsval

text \<open>JavaScript's \<open>ToBoolean\<close>, as used by \<open>if (parameters)\<close>.\<close>

fun truthy :: "jsval \<Rightarrow> bool" where
  "truthy JUndefined = False"
| "truthy JNull = False"
| "truthy (JBool b) = b"
| "truthy (JNum s) = (s \<noteq> ''0'' \<and> s \<noteq> ''NaN'')"
| "truthy (JStr s) = (s \<noteq> [])"
| "truthy (JArr xs) = True"
| "truthy (JObj es) = True"

definition nullish :: "jsval \<Rightarrow> bool" where
  "nullish v = (v = JUndefined \<or> v = JNull)"

fun join_comma :: "string list \<Rightarrow> string" where
  "join_comma [] = []"
| "join_comma [x] = x"
| "join_comma (x # y # ys) = x @ CHR '','' # join_comma (y # ys)"

text \<open>\<open>String(v)\<close>; an array renders as \<open>join(',')\<close>, where \<open>null\<close> and \<open>undefined\<close>
  elements render empty.\<close>

fun String_js :: "jsval \<Rightarrow> string" where
  "String_js JUndefined = ''undefined''"
| "String_js JNull = ''null''"
| "String_js (JBool b) = (if b then ''true'' else ''false'')"
| "String_js (JNum s) = s"
| "String_js (JStr s) = s"
| "String_js (JArr xs) =
     join_comma (map (\<lambda>x. if x = JUndefined \<or> x = JNull then [] else String_js x) xs)"
| "String_js (JObj es) = ''[object Object]''"

definition digit_char :: "nat \<Rightarrow> char" where
  "digit_char n = ''0123456789'' ! (n mod 10)"

fun string_of_nat :: "nat \<Rightarrow> string" where
  "string_of_nat n =
     (if n < 10 then [digit_char n] else string_of_nat (n div 10) @ [digit_char n])"

text \<open>\<open>Object.entries\<close>: an array reports its indices as keys.\<close>

fun Object_entries :: "jsval \<Rightarrow> (string \<times> jsval) list" where
  "Object_entries (JObj es) = es"
| "Object_entries (JArr xs) = zip (map string_of_nat [0..<length xs]) xs"
| "Object_entries v = []"

text \<open>
  Reading a property \<open>v.p\<close> for the property names the source reads (\<open>data\<close>, \<open>id\<close>,
  \<open>name\<close>, \<open>channel_key\<close>, \<open>channel_key_expiry\<close>, \<open>pusher_host\<close>, \<open>pusher_key\<close>,
  \<open>pusher_cluster\<close>): none of them is a built-in property of a string, number, boolean
  or array, so only an object can hold one. Reading from \<open>undefined\<close> or \<open>null\<close> throws.
\<close>

fun field_of :: "jsval \<Rightarrow> string \<Rightarrow> jsval" where
  "field_of (JObj es) p = (case map_of es p of Some v \<Rightarrow> v | None \<Rightarrow> JUndefined)"
| "field_of v p = JUndefined"

definition get_prop :: "jsval \<Rightarrow> string \<Rightarrow> js_error + jsval" where
  "get_prop v p =
     (if nullish v
      then Inl (TypeError (''Cannot read properties of '' @ String_js v @ '' (reading '' @ p @ '')''))
      else Inr (field_of v p))"

section \<open>The environment and the library boundary\<close>

text \<open>\<open>process.env\<close> after \<open>dotenv\<close> has loaded: a variable is a string or \<open>undefined\<close>.\<close>

record env =
  API_KEY :: "string option"
  DOMAIN_URL :: "string option"

text \<open>\<open>!x\<close> for an environment variable: \<open>undefined\<close> and the empty string are falsy.\<close>

definition absent :: "string option \<Rightarrow> bool" where
  "absent x = (case x of None \<Rightarrow> True | Some s \<Rightarrow> s = [])"

text \<open>A template literal's \<open>${x}\<close> for a string or \<open>undefined\<close>.\<close>

definition interpolate :: "string option \<Rightarrow> string" where
  "interpolate x = (case x of None \<Rightarrow> ''undefined'' | Some s \<Rightarrow> s)"

record request =
  req_method :: string
  req_redirect :: string
  req_headers :: "(string \<times> string) list"
  req_body :: "string option"

record response =
  res_ok :: bool
  res_status :: nat
  res_statusText :: string
  res_text :: "js_error + string"

record pusher_options =
  cluster :: jsval
  wsHost :: jsval
  activityTimeout :: int
  pongTimeout :: int
  wsPort :: int
  forceTLS :: bool
  authEndpoint :: string
  auth_headers :: "(string \<times> string) list"

text \<open>
  What the source calls but does not define: the WHATWG \<open>URL\<close> class (over an abstract
  type \<open>'u\<close> of URL objects), percent-decoding, \<open>fetch\<close>, \<open>JSON\<close>, and the \<open>pusher-js\<close>
  constructor and \<open>subscribe\<close>, each of which may throw (\<open>Some e\<close>). Every theorem below
  holds for any such library.
\<close>

record 'u lib =
  URL_new :: "string \<Rightarrow> string option \<Rightarrow> js_error + 'u"
  searchParams_append :: "'u \<Rightarrow> string \<Rightarrow> string \<Rightarrow> 'u"
  URL_toString :: "'u \<Rightarrow> string"
  percent_decode :: "string \<Rightarrow> string"
  fetch :: "string \<Rightarrow> request \<Rightarrow> js_error + response"
  JSON_parse :: "string \<Rightarrow> js_error + jsval"
  JSON_stringify :: "jsval \<Rightarrow> string"
  Pusher_new :: "jsval \<Rightarrow> pusher_options \<Rightarrow> js_error option"
  Pusher_subscribe :: "jsval \<Rightarrow> js_error option"

text \<open>The two callbacks the source binds or lists: the logger of line 204 and the
  \<open>(e) => queueRowUpdate(e.data)\<close> of the \<open>channels\<close> table.\<close>

datatype handler = LogUpdate | QueueRowUpdateOfData

datatype logarg = LStr string | LVal jsval | LErr js_error

text \<open>What a run does to the outside world, in order.\<close>

datatype effect =
    ConsoleLog "logarg list"
  | ConsoleError "logarg list"
  | ProcessExit nat
  | FetchCall string request
  | Pusher_logToConsole bool
  | PusherNew jsval pusher_options
  | PusherSubscribe jsval
  | ChannelBind string handler
  | QueueRowUpdate jsval
  | Uncaught js_error

section \<open>API.js: the REST helpers\<close>

definition requestOptions :: "string option \<Rightarrow> request" where
  "requestOptions api_key =
     \<lparr> req_method = ''GET'', req_redirect = ''follow'',
       req_headers = [(''Authorization'', ''Bearer '' @ interpolate api_key),
                      (''Content-Type'', ''application/json'')],
       req_body = None \<rparr>"

text \<open>\<open>new URLSearchParams(qs)\<close> for a string, after the WHATWG constructor and its
  \<open>application/x-www-form-urlencoded\<close> parser: one leading \<open>?\<close> is dropped, the rest is
  split at \<open>&\<close>, empty pieces are skipped, each piece is split at its first \<open>=\<close>, \<open>+\<close>
  becomes a space, and name and value are percent-decoded.\<close>

fun split_on :: "char \<Rightarrow> string \<Rightarrow> string list" where
  "split_on c [] = [[]]"
| "split_on c (x # xs) =
     (if x = c then [] # split_on c xs
      else (case split_on c xs of [] \<Rightarrow> [[x]] | p # ps \<Rightarrow> (x # p) # ps))"

definition plus_to_space :: "string \<Rightarrow> string" where
  "plus_to_space s = map (\<lambda>c. if c = CHR ''+'' then CHR '' '' else c) s"

definition parse_pair :: "'u lib \<Rightarrow> string \<Rightarrow> string \<times> string" where
  "parse_pair L piece =
     (let name = takeWhile (\<lambda>c. c \<noteq> CHR ''='') piece;
          val = drop 1 (dropWhile (\<lambda>c. c \<noteq> CHR ''='') piece)
      in (percent_decode L (plus_to_space name), percent_decode L (plus_to_space val)))"

definition URLSearchParams_new :: "'u lib \<Rightarrow> string \<Rightarrow> (string \<times> string) list" where
  "URLSearchParams_new L init =
     (let s = (case init of c # rest \<Rightarrow> if c = CHR ''?'' then rest else init | [] \<Rightarrow> init)
      in map (parse_pair L) (filter (\<lambda>p. p \<noteq> []) (split_on CHR ''&'' s)))"

text \<open>The second argument of \<open>getTodMarketsEndpoint\<close>: a \<open>URLSearchParams\<close> instance
  (its entries) or any other value, \<open>undefined\<close> when omitted.\<close>

datatype params = PURLSearchParams "(string \<times> string) list" | PValue jsval

fun append_all :: "'u lib \<Rightarrow> 'u \<Rightarrow> (string \<times> string) list \<Rightarrow> 'u" where
  "append_all L url [] = url"
| "append_all L url ((k, v) # ps) = append_all L (searchParams_append L url k v) ps"

text \<open>Lines 57 to 61: the \<open>append\<close> calls one entry of an object makes.\<close>

definition entry_appends :: "string \<times> jsval \<Rightarrow> (string \<times> string) list" where
  "entry_appends e =
     (case e of (k, v) \<Rightarrow>
        if v = JUndefined \<or> v = JNull then []
        else (case v of
                JArr vals \<Rightarrow> map (\<lambda>val. (k, String_js val)) vals
              | _ \<Rightarrow> [(k, String_js v)]))"

definition object_appends :: "jsval \<Rightarrow> (string \<times> string) list" where
  "object_appends v = concat (map entry_appends (Object_entries v))"

text \<open>Lines 53 to 69: the query parameters appended to the URL, or the \<open>TypeError\<close>.\<close>

definition parameter_appends :: "'u lib \<Rightarrow> params \<Rightarrow> js_error + (string \<times> string) list" where
  "parameter_appends L parameters =
     (case parameters of
        PURLSearchParams es \<Rightarrow> Inr es
      | PValue v \<Rightarrow>
          if \<not> truthy v then Inr []
          else (case v of
                  JObj es \<Rightarrow> Inr (object_appends v)
                | JArr xs \<Rightarrow> Inr (object_appends v)
                | JStr s \<Rightarrow>
                    Inr (URLSearchParams_new L
                           (case s of c # rest \<Rightarrow> if c = CHR ''?'' then rest else s | [] \<Rightarrow> s))
                | _ \<Rightarrow> Inl (TypeError ''parameters must be an object, string, or URLSearchParams'')))"

text \<open>An \<open>async\<close> function returns its settled promise (\<open>Inl\<close> rejected, \<open>Inr\<close> resolved)
  and the effects it had.\<close>

definition getTodMarketsEndpoint ::
  "'u lib \<Rightarrow> env \<Rightarrow> string \<Rightarrow> params \<Rightarrow> (js_error + string) \<times> effect list" where
  "getTodMarketsEndpoint L E endpoint parameters =
     (case URL_new L endpoint (DOMAIN_URL E) of
        Inl e \<Rightarrow> (Inl e, [])
      | Inr url0 \<Rightarrow>
          (case parameter_appends L parameters of
             Inl e \<Rightarrow> (Inl e, [])
           | Inr ps \<Rightarrow>
               (let href = URL_toString L (append_all L url0 ps);
                    fx = [ConsoleLog [LStr (''Fetching: '' @ href)],
                          FetchCall href (requestOptions (API_KEY E))]
                in (case fetch L href (requestOptions (API_KEY E)) of
                      Inl e \<Rightarrow> (Inl e, fx)
                    | Inr res \<Rightarrow>
                        if \<not> res_ok res
                        then (Inl (Error (''Request failed: '' @ string_of_nat (res_status res)
                                            @ '' '' @ res_statusText res)), fx)
                        else (res_text res, fx)))))"

definition postTodMarketsEndpoint ::
  "'u lib \<Rightarrow> env \<Rightarrow> string \<Rightarrow> jsval \<Rightarrow> (js_error + string) \<times> effect list" where
  "postTodMarketsEndpoint L E endpoint payload0 =
     (let payload = (if payload0 = JUndefined then JObj [] else payload0) in
      case URL_new L endpoint (DOMAIN_URL E) of
        Inl e \<Rightarrow> (Inl e, [])
      | Inr url \<Rightarrow>
          (let opts = (requestOptions (API_KEY E))
                 \<lparr> req_method := ''POST'',
                   req_headers := AList.update ''Content-Type'' ''application/json''
                                    (req_headers (requestOptions (API_KEY E))),
                   req_body := Some (JSON_stringify L payload) \<rparr>;
               href = URL_toString L url;
               fx = [FetchCall href opts]
           in (case fetch L href opts of
                 Inl e \<Rightarrow> (Inl e, fx)
               | Inr res \<Rightarrow>
                   if \<not> res_ok res
                   then (Inl (Error (''Request failed: '' @ string_of_nat (res_status res)
                                       @ '' '' @ res_statusText res)), fx)
                   else (res_text res, fx))))"

text \<open>
  Lines 3 to 14 and 109 to 124: what loading \<open>API.js\<close> does. \<open>process.exit(1)\<close> ends the
  process at once (\<open>Exited\<close>); an uncaught exception of the module body ends it too
  (\<open>Crashed\<close>); otherwise the module is loaded (\<open>Running\<close>), having had some effects and
  started some asynchronous calls, each with the effects it has when it runs to its
  end. The calls run interleaved; the order of their effects among each other is
  the network's and is not fixed here.
\<close>

datatype run =
    Exited "effect list"
  | Crashed "effect list" js_error
  | Running "effect list" "effect list list"

definition settle_logged :: "(js_error + string) \<times> effect list \<Rightarrow> effect list" where
  "settle_logged call =
     (case call of (r, fx) \<Rightarrow>
        fx @ [case r of Inl e \<Rightarrow> ConsoleError [LErr e] | Inr s \<Rightarrow> ConsoleLog [LStr s]])"

definition API_js :: "'u lib \<Rightarrow> env \<Rightarrow> bool \<Rightarrow> run" where
  "API_js L E is_main =
     (if absent (API_KEY E)
      then Exited [ConsoleError
                     [LStr ''Missing API_KEY in environment. Please set API_KEY in your .env file.''],
                   ProcessExit 1]
      else if absent (DOMAIN_URL E)
      then Exited [ConsoleError
                     [LStr ''Missing DOMAIN_URL in environment. Please set DOMAIN_URL in your .env file.''],
                   ProcessExit 1]
      else if is_main
      then Running []
             [settle_logged (getTodMarketsEndpoint L E ''/api/assets/prices''
                (PValue (JObj [(''markets'', JStr ''N Q''), (''periods'', JStr ''Q326''),
                               (''bucket'', JStr ''EP MD'')]))),
              settle_logged (postTodMarketsEndpoint L E ''/api/order''
                (JObj [(''asset_code'', JStr ''Q-Q127C6X''), (''type'', JStr ''BUY''),
                       (''price'', JNum ''10.66''), (''quantity'', JNum ''10''),
                       (''replace_match'', JBool True), (''is_persistent'', JBool False),
                       (''status'', JStr ''HOLD'')]))]
      else Running [] [])"

section \<open>websocket.js: credentials and the transport\<close>

text \<open>Line 136: \<open>DOMAIN_URL.replace(/\/api\/?$/, '')\<close> removes one trailing \<open>/api\<close> or
  \<open>/api/\<close>; the pattern is anchored at the end, so at most one place matches.\<close>

definition strip_api :: "string \<Rightarrow> string" where
  "strip_api s =
     (if suffix ''/api/'' s then take (length s - 5) s
      else if suffix ''/api'' s then take (length s - 4) s
      else s)"

definition environmentURL_value :: "env \<Rightarrow> js_error + string" where
  "environmentURL_value E =
     (case DOMAIN_URL E of
        None \<Rightarrow> Inl (TypeError ''Cannot read properties of undefined (reading replace)'')
      | Some d \<Rightarrow> Inr (strip_api d))"

record websocketDetails =
  id_wd :: jsval
  name_wd :: jsval
  channel_key :: jsval
  channel_key_expiry :: jsval
  pusher_host :: jsval
  pusher_key :: jsval
  pusher_cluster :: jsval

definition websocketDetails_init :: websocketDetails where
  "websocketDetails_init =
     \<lparr> id_wd = JNull, name_wd = JNull, channel_key = JNull, channel_key_expiry = JNull,
       pusher_host = JNull, pusher_key = JNull, pusher_cluster = JNull \<rparr>"

text \<open>One statement \<open>websocketDetails.f = details.p\<close>: the read may throw, and then
  neither this nor any later statement writes.\<close>

definition assign ::
  "js_error option \<times> websocketDetails \<Rightarrow> jsval
     \<Rightarrow> (jsval \<Rightarrow> websocketDetails \<Rightarrow> websocketDetails) \<times> string
     \<Rightarrow> js_error option \<times> websocketDetails" where
  "assign st details stmt =
     (case st of
        (Some e, wd) \<Rightarrow> (Some e, wd)
      | (None, wd) \<Rightarrow>
          (case get_prop details (snd stmt) of
             Inl e \<Rightarrow> (Some e, wd)
           | Inr v \<Rightarrow> (None, fst stmt v wd)))"

definition setWebsocketDetails ::
  "websocketDetails \<Rightarrow> jsval \<Rightarrow> js_error option \<times> websocketDetails" where
  "setWebsocketDetails wd details =
     foldl (\<lambda>st stmt. assign st details stmt) (None, wd)
       [(\<lambda>v w. w\<lparr>id_wd := v\<rparr>, ''id''),
        (\<lambda>v w. w\<lparr>name_wd := v\<rparr>, ''name''),
        (\<lambda>v w. w\<lparr>channel_key := v\<rparr>, ''channel_key''),
        (\<lambda>v w. w\<lparr>channel_key_expiry := v\<rparr>, ''channel_key_expiry''),
        (\<lambda>v w. w\<lparr>pusher_host := v\<rparr>, ''pusher_host''),
        (\<lambda>v w. w\<lparr>pusher_key := v\<rparr>, ''pusher_key''),
        (\<lambda>v w. w\<lparr>pusher_cluster := v\<rparr>, ''pusher_cluster'')]"

text \<open>Lines 161 to 166, the \<open>.then\<close> callback: its result, the cache after it, its
  effects.\<close>

definition on_response ::
  "'u lib \<Rightarrow> websocketDetails \<Rightarrow> string
     \<Rightarrow> (js_error + jsval) \<times> websocketDetails \<times> effect list" where
  "on_response L wd response =
     (case JSON_parse L response of
        Inl e \<Rightarrow> (Inl e, wd, [])
      | Inr res \<Rightarrow>
          (case get_prop res ''data'' of
             Inl e \<Rightarrow> (Inl e, wd, [])
           | Inr data \<Rightarrow>
               (case setWebsocketDetails wd data of
                  (Some e, wd') \<Rightarrow> (Inl e, wd', [ConsoleLog [LStr ''Websocket Details:'', LVal data]])
                | (None, wd') \<Rightarrow> (Inr res, wd', [ConsoleLog [LStr ''Websocket Details:'', LVal data]]))))"

text \<open>Lines 167 to 169, the \<open>.catch\<close> callback.\<close>

definition on_error :: "js_error \<Rightarrow> (js_error + jsval) \<times> effect list" where
  "on_error error = (Inr JUndefined, [ConsoleError [LStr ''Error fetching websocket details:'', LErr error]])"

definition getWebsocketDetails ::
  "'u lib \<Rightarrow> env \<Rightarrow> websocketDetails
     \<Rightarrow> (js_error + jsval) \<times> websocketDetails \<times> effect list" where
  "getWebsocketDetails L E wd =
     (case getTodMarketsEndpoint L E ''/api/company'' (PValue JUndefined) of (r1, fx1) \<Rightarrow>
      case (case r1 of Inl e \<Rightarrow> (Inl e, wd, []) | Inr response \<Rightarrow> on_response L wd response)
        of (r2, wd2, fx2) \<Rightarrow>
      case (case r2 of Inl e \<Rightarrow> on_error e | Inr v \<Rightarrow> (Inr v, [])) of (r3, fx3) \<Rightarrow>
        (case r3 of Inl e \<Rightarrow> Inl e | Inr v \<Rightarrow> Inr JUndefined, wd2, fx1 @ fx2 @ fx3))"

text \<open>Lines 172 to 183: the \<open>channels\<close> table. \<open>ref\<close> and \<open>queueRowUpdate\<close> are not
  defined in the file; the table is read by nothing else in it.\<close>

definition backslash :: char where
  "backslash = CHR 0x5C"

definition channels_events :: "(string \<times> handler) list" where
  "channels_events =
     [(''App'' @ [backslash] @ ''Events'' @ [backslash] @ ''AssetPriceChangeEventCompany'',
         QueueRowUpdateOfData),
      (''App'' @ [backslash] @ ''Events'' @ [backslash] @ ''OrderUpdated'', QueueRowUpdateOfData),
      (''App'' @ [backslash] @ ''Events'' @ [backslash] @ ''OrderFilled'', QueueRowUpdateOfData),
      (''App'' @ [backslash] @ ''Events'' @ [backslash] @ ''OrderCreated'', QueueRowUpdateOfData)]"

definition channels_name :: "websocketDetails \<Rightarrow> string" where
  "channels_name wd = ''private-'' @ String_js (channel_key wd)"

text \<open>Lines 185 to 210. The result is the settled promise, the cache and the effects.\<close>

definition pusher_config :: "env \<Rightarrow> string \<Rightarrow> websocketDetails \<Rightarrow> pusher_options" where
  "pusher_config E environmentURL wd =
     \<lparr> cluster = pusher_cluster wd, wsHost = pusher_host wd,
       activityTimeout = 30000, pongTimeout = 10000, wsPort = 80, forceTLS = False,
       authEndpoint = environmentURL @ ''/broadcasting/auth'',
       auth_headers = [(''Authorization'', ''Bearer '' @ interpolate (API_KEY E))] \<rparr>"

definition establishWebSocketConnection ::
  "'u lib \<Rightarrow> env \<Rightarrow> string \<Rightarrow> websocketDetails
     \<Rightarrow> (js_error + jsval) \<times> websocketDetails \<times> effect list" where
  "establishWebSocketConnection L E environmentURL wd =
     (case getWebsocketDetails L E wd of (r, wd1, fx1) \<Rightarrow>
      (case r of
         Inl e \<Rightarrow> (Inl e, wd1, fx1)
       | Inr u \<Rightarrow>
           (let opts = pusher_config E environmentURL wd1;
                fx2 = fx1 @ [Pusher_logToConsole True, PusherNew (pusher_key wd1) opts]
            in case Pusher_new L (pusher_key wd1) opts of
                 Some e \<Rightarrow> (Inl e, wd1, fx2)
               | None \<Rightarrow>
                   (case Pusher_subscribe L (channel_key wd1) of
                      Some e \<Rightarrow> (Inl e, wd1, fx2 @ [PusherSubscribe (channel_key wd1)])
                    | None \<Rightarrow>
                        (Inr JUndefined, wd1,
                         fx2 @ [PusherSubscribe (channel_key wd1),
                                ChannelBind ''update'' LogUpdate])))))"

text \<open>Lines 129 to 215: what running \<open>websocket.js\<close> does. It loads \<open>API.js\<close> first (not as
  the main module). \<open>ref\<close> is a free identifier of the file: \<open>ref_bound\<close> says whether the
  host defines it globally; where it does not, line 172 throws.\<close>

definition websocket_js :: "'u lib \<Rightarrow> env \<Rightarrow> bool \<Rightarrow> run" where
  "websocket_js L E ref_bound =
     (case API_js L E False of
        Exited fx \<Rightarrow> Exited fx
      | Crashed fx e \<Rightarrow> Crashed fx e
      | Running fx ts \<Rightarrow>
          (case environmentURL_value E of
             Inl e \<Rightarrow> Crashed fx e
           | Inr environmentURL \<Rightarrow>
               if \<not> ref_bound then Crashed fx (ReferenceError ''ref is not defined'')
               else Running fx
                      (ts @ [case establishWebSocketConnection L E environmentURL
                                    websocketDetails_init of
                               (r, wd, efx) \<Rightarrow>
                                 efx @ (case r of Inl e \<Rightarrow> [Uncaught e] | Inr v \<Rightarrow> [])])))"

fun run_effects :: "run \<Rightarrow> effect list" where
  "run_effects (Exited fx) = fx"
| "run_effects (Crashed fx e) = fx"
| "run_effects (Running fx ts) = fx @ concat ts"

fun is_request :: "effect \<Rightarrow> bool" where
  "is_request (FetchCall href opts) = True"
| "is_request (PusherNew k opts) = True"
| "is_request (PusherSubscribe c) = True"
| "is_request e = False"

section \<open>What the claims speak of\<close>

text \<open>The \<open>res.data\<close> that the \<open>.then\<close> callback of \<open>getWebsocketDetails\<close> reads, or the
  error that reaches \<open>.catch\<close> before it is read.\<close>

definition company_data :: "'u lib \<Rightarrow> env \<Rightarrow> js_error + jsval" where
  "company_data L E =
     (case fst (getTodMarketsEndpoint L E ''/api/company'' (PValue JUndefined)) of
        Inl e \<Rightarrow> Inl e
      | Inr response \<Rightarrow>
          (case JSON_parse L response of
             Inl e \<Rightarrow> Inl e
           | Inr res \<Rightarrow> get_prop res ''data''))"

text \<open>The cache whose seven fields are the properties of \<open>data\<close>.\<close>

definition stored :: "jsval \<Rightarrow> websocketDetails" where
  "stored data =
     \<lparr> id_wd = field_of data ''id'', name_wd = field_of data ''name'',
       channel_key = field_of data ''channel_key'',
       channel_key_expiry = field_of data ''channel_key_expiry'',
       pusher_host = field_of data ''pusher_host'', pusher_key = field_of data ''pusher_key'',
       pusher_cluster = field_of data ''pusher_cluster'' \<rparr>"

definition required_fields :: "string list" where
  "required_fields =
     [''id'', ''name'', ''channel_key'', ''channel_key_expiry'', ''pusher_host'', ''pusher_key'',
      ''pusher_cluster'']"

text \<open>A payload with every required field present and non-empty.\<close>

definition complete :: "jsval \<Rightarrow> bool" where
  "complete data = list_all (\<lambda>p. truthy (field_of data p)) required_fields"

fun is_console_error :: "effect \<Rightarrow> bool" where
  "is_console_error (ConsoleError args) = True"
| "is_console_error e = False"

fun is_PusherNew :: "effect \<Rightarrow> bool" where
  "is_PusherNew (PusherNew k opts) = True"
| "is_PusherNew e = False"

fun bindings_of :: "effect list \<Rightarrow> (string \<times> handler) list" where
  "bindings_of [] = []"
| "bindings_of (ChannelBind ev h # fx) = (ev, h) # bindings_of fx"
| "bindings_of (e # fx) = bindings_of fx"

text \<open>What a callback of the source does when it is called with \<open>x\<close>.\<close>

fun invoke :: "handler \<Rightarrow> jsval \<Rightarrow> effect list" where
  "invoke LogUpdate x = [ConsoleLog [LStr ''Received update:'', LVal x]]"
| "invoke QueueRowUpdateOfData x =
     (case get_prop x ''data'' of Inl e \<Rightarrow> [Uncaught e] | Inr d \<Rightarrow> [QueueRowUpdate d])"

text \<open>Modelled from the spec: the transport library (\<open>pusher-js\<close>) is not part of the
  repository. Its delivery of an inbound event follows the spec's transport boundary and
  router (sections 4.4, 4.5 and 6): the callbacks bound on the channel under the event's
  name are called in binding order, each once, with the event's payload.\<close>

definition deliver :: "(string \<times> handler) list \<Rightarrow> string \<Rightarrow> jsval \<Rightarrow> (handler \<times> jsval) list" where
  "deliver bound ev payload = map (\<lambda>b. (snd b, payload)) (filter (\<lambda>b. fst b = ev) bound)"

text \<open>Modelled from the spec: the channel-authorization request of the transport library,
  which is not part of the repository (sections 4.2 and 6): a POST to the configured
  authorization endpoint with the configured headers, the socket id and the channel name
  form-encoded in the body.\<close>

definition authorize_request :: "pusher_options \<Rightarrow> string \<Rightarrow> string \<Rightarrow> string \<times> request" where
  "authorize_request opts socket_id channel_name =
     (authEndpoint opts,
      \<lparr> req_method = ''POST'', req_redirect = ''follow'',
        req_headers = auth_headers opts,
        req_body = Some (''socket_id='' @ socket_id @ ''&channel_name='' @ channel_name) \<rparr>)"

text \<open>Effects that are console output or a \<open>fetch\<close> call, none of the transport.\<close>

fun is_console_or_fetch :: "effect \<Rightarrow> bool" where
  "is_console_or_fetch (ConsoleLog args) = True"
| "is_console_or_fetch (ConsoleError args) = True"
| "is_console_or_fetch (FetchCall href opts) = True"
| "is_console_or_fetch e = False"


fun is_array :: "jsval \<Rightarrow> bool" where
  "is_array (JArr xs) = True"
| "is_array v = False"

section \<open>A library for the examples\<close>

text \<open>
  A small stand-in for the libraries, right on the inputs the examples use: URLs over the
  staging base URL of the README with a path-absolute endpoint, form-urlencoded
  serialisation of the query, a \<open>fetch\<close> with a given outcome, a \<open>JSON.parse\<close> that knows
  the given bodies, a \<open>JSON.stringify\<close> for strings without characters to escape, and a \<open>Pusher\<close> constructor that throws without an app key.
\<close>

definition staging :: string where
  "staging = ''https://staging.todmarkets.com.au/api/''"

definition hex_digit :: "nat \<Rightarrow> char" where
  "hex_digit n = ''0123456789ABCDEF'' ! (n mod 16)"

definition urlencode :: "string \<Rightarrow> string" where
  "urlencode s =
     concat (map (\<lambda>c.
       if c \<in> set ''ABCDEFGHIJKLMNOPQRSTUVWXYZabcdefghijklmnopqrstuvwxyz0123456789*-._'' then [c]
       else if c = CHR '' '' then ''+''
       else [CHR ''%'', hex_digit (of_char c div 16), hex_digit (of_char c)]) s)"

definition quoted :: "string \<Rightarrow> string" where
  "quoted s = CHR 0x22 # s @ [CHR 0x22]"

fun json_text :: "jsval \<Rightarrow> string" where
  "json_text JUndefined = ''null''"
| "json_text JNull = ''null''"
| "json_text (JBool b) = (if b then ''true'' else ''false'')"
| "json_text (JNum s) = s"
| "json_text (JStr s) = quoted s"
| "json_text (JArr xs) = ''['' @ join_comma (map json_text xs) @ '']''"
| "json_text (JObj es) =
     ''{'' @ join_comma (map (\<lambda>e. quoted (fst e) @ '':'' @ json_text (snd e))
                          (filter (\<lambda>e. snd e \<noteq> JUndefined) es)) @ ''}''"

fun join_amp :: "string list \<Rightarrow> string" where
  "join_amp [] = []"
| "join_amp [x] = x"
| "join_amp (x # y # ys) = x @ CHR ''&'' # join_amp (y # ys)"

definition example_lib ::
  "(js_error + response) \<Rightarrow> (string \<times> jsval) list \<Rightarrow> (string \<times> (string \<times> string) list) lib" where
  "example_lib outcome bodies =
     \<lparr> URL_new = (\<lambda>endpoint base.
         if base = Some staging \<and> take 1 endpoint = ''/''
         then Inr (''https://staging.todmarkets.com.au'' @ endpoint, [])
         else Inl (TypeError ''Invalid URL'')),
       searchParams_append = (\<lambda>url k v. (fst url, snd url @ [(k, v)])),
       URL_toString = (\<lambda>url.
         if snd url = [] then fst url
         else fst url @ ''?'' @ join_amp (map (\<lambda>p. urlencode (fst p) @ ''='' @ urlencode (snd p)) (snd url))),
       percent_decode = (\<lambda>s. s),
       fetch = (\<lambda>href opts. outcome),
       JSON_parse = (\<lambda>s. case map_of bodies s of
                            Some v \<Rightarrow> Inr v
                          | None \<Rightarrow> Inl (SyntaxError ''Unexpected token'')),
       JSON_stringify = json_text,
       Pusher_new = (\<lambda>key opts.
         if nullish key
         then Some (Thrown (JStr ''You must pass your app key when you instantiate Pusher.''))
         else None),
       Pusher_subscribe = (\<lambda>c. None) \<rparr>"

definition example_env :: env where
  "example_env = \<lparr> API_KEY = Some ''secret'', DOMAIN_URL = Some staging \<rparr>"

definition ok_response :: "string \<Rightarrow> js_error + response" where
  "ok_response body_text =
     Inr \<lparr> res_ok = True, res_status = 200, res_statusText = ''OK'', res_text = Inr body_text \<rparr>"

text \<open>The credential payload of the spec's scenario, under the field names of the
  source, and one that lacks \<open>pusher_key\<close>.\<close>

definition scenario_data :: jsval where
  "scenario_data =
     JObj [(''id'', JStr ''c1''), (''name'', JStr ''Acme''), (''channel_key'', JStr ''k1''),
           (''channel_key_expiry'', JStr ''2099-01-01T00:00:00Z''), (''pusher_host'', JStr ''h''),
           (''pusher_key'', JStr ''pk''), (''pusher_cluster'', JStr ''eu'')]"

definition partial_data :: jsval where
  "partial_data =
     JObj [(''id'', JStr ''c2''), (''name'', JStr ''Bolt''), (''channel_key'', JStr ''k2''),
           (''channel_key_expiry'', JStr ''2099-01-01T00:00:00Z''), (''pusher_host'', JStr ''h2''),
           (''pusher_cluster'', JStr ''us'')]"

definition scenario_lib :: "(string \<times> (string \<times> string) list) lib" where
  "scenario_lib =
     example_lib (ok_response ''scenario'') [(''scenario'', JObj [(''data'', scenario_data)])]"

definition partial_lib :: "(string \<times> (string \<times> string) list) lib" where
  "partial_lib =
     example_lib (ok_response ''partial'') [(''partial'', JObj [(''data'', partial_data)])]"

definition failing_lib :: "(string \<times> (string \<times> string) list) lib" where
  "failing_lib = example_lib (Inl (TypeError ''fetch failed'')) []"

text \<open>A response whose body parses to an object without \<open>data\<close>.\<close>

definition empty_lib :: "(string \<times> (string \<times> string) list) lib" where
  "empty_lib = example_lib (ok_response ''empty'') [(''empty'', JObj [])]"

text \<open>The options \<open>establishWebSocketConnection\<close> passes to \<open>new Pusher\<close> in the scenario.\<close>

definition scenario_options :: pusher_options where
  "scenario_options =
     \<lparr> cluster = JStr ''eu'', wsHost = JStr ''h'', activityTimeout = 30000, pongTimeout = 10000,
       wsPort = 80, forceTLS = False,
       authEndpoint = ''https://staging.todmarkets.com.au/broadcasting/auth'',
       auth_headers = [(''Authorization'', ''Bearer secret'')] \<rparr>"





section \<open>Lemmas\<close>

lemma getTodMarketsEndpoint_effects:
  "snd (getTodMarketsEndpoint L E endpoint ps) = [] \<or>
   (\<exists>href. snd (getTodMarketsEndpoint L E endpoint ps) =
      [ConsoleLog [LStr (''Fetching: '' @ href)], FetchCall href (requestOptions (API_KEY E))])"
  by (simp add: getTodMarketsEndpoint_def Let_def split: sum.splits)

lemma company_fetch_logs_url:
  "URL_new L ''/api/company'' (DOMAIN_URL E) = Inr url \<Longrightarrow>
   snd (getTodMarketsEndpoint L E ''/api/company'' (PValue JUndefined)) =
     [ConsoleLog [LStr (''Fetching: '' @ URL_toString L url)],
      FetchCall (URL_toString L url) (requestOptions (API_KEY E))]"
  by (simp add: getTodMarketsEndpoint_def parameter_appends_def Let_def split: sum.splits)

lemma setWebsocketDetails_object:
  "\<not> nullish d \<Longrightarrow> setWebsocketDetails wd d = (None, stored d)"
  by (cases wd) (simp add: setWebsocketDetails_def assign_def get_prop_def stored_def)

lemma setWebsocketDetails_nullish:
  "nullish d \<Longrightarrow> \<exists>e. setWebsocketDetails wd d = (Some e, wd)"
  by (simp add: setWebsocketDetails_def assign_def get_prop_def)

lemma company_data_fetch:
  "company_data L E = Inr data \<Longrightarrow>
     \<exists>body res. fst (getTodMarketsEndpoint L E ''/api/company'' (PValue JUndefined)) = Inr body
        \<and> JSON_parse L body = Inr res \<and> get_prop res ''data'' = Inr data"
  by (auto simp: company_data_def split: sum.splits)

lemma getWebsocketDetails_stores:
  assumes "company_data L E = Inr data" and "\<not> nullish data"
  shows "getWebsocketDetails L E wd =
           (Inr JUndefined, stored data,
            snd (getTodMarketsEndpoint L E ''/api/company'' (PValue JUndefined))
              @ [ConsoleLog [LStr ''Websocket Details:'', LVal data]])"
proof -
  obtain body res where
    f: "fst (getTodMarketsEndpoint L E ''/api/company'' (PValue JUndefined)) = Inr body"
    and p: "JSON_parse L body = Inr res" and d: "get_prop res ''data'' = Inr data"
    using company_data_fetch [OF assms(1)] by blast
  obtain r fx where g: "getTodMarketsEndpoint L E ''/api/company'' (PValue JUndefined) = (r, fx)"
    by (cases "getTodMarketsEndpoint L E ''/api/company'' (PValue JUndefined)")
  with f have r: "r = Inr body" by simp
  show ?thesis
    by (simp add: getWebsocketDetails_def g r on_response_def p d
        setWebsocketDetails_object [OF assms(2)])
qed

lemma getWebsocketDetails_nullish:
  assumes "company_data L E = Inr data" and "nullish data"
  shows "\<exists>e. getWebsocketDetails L E wd =
           (Inr JUndefined, wd,
            snd (getTodMarketsEndpoint L E ''/api/company'' (PValue JUndefined))
              @ [ConsoleLog [LStr ''Websocket Details:'', LVal data],
                 ConsoleError [LStr ''Error fetching websocket details:'', LErr e]])"
proof -
  obtain body res where
    f: "fst (getTodMarketsEndpoint L E ''/api/company'' (PValue JUndefined)) = Inr body"
    and p: "JSON_parse L body = Inr res" and d: "get_prop res ''data'' = Inr data"
    using company_data_fetch [OF assms(1)] by blast
  obtain r fx where g: "getTodMarketsEndpoint L E ''/api/company'' (PValue JUndefined) = (r, fx)"
    by (cases "getTodMarketsEndpoint L E ''/api/company'' (PValue JUndefined)")
  with f have r: "r = Inr body" by simp
  obtain e where s: "setWebsocketDetails wd data = (Some e, wd)"
    using setWebsocketDetails_nullish [OF assms(2)] by blast
  show ?thesis
    by (simp add: getWebsocketDetails_def g r on_response_def p d s on_error_def)
qed

lemma getWebsocketDetails_fails:
  assumes "company_data L E = Inl e"
  shows "getWebsocketDetails L E wd =
           (Inr JUndefined, wd,
            snd (getTodMarketsEndpoint L E ''/api/company'' (PValue JUndefined))
              @ [ConsoleError [LStr ''Error fetching websocket details:'', LErr e]])"
proof -
  obtain r fx where g: "getTodMarketsEndpoint L E ''/api/company'' (PValue JUndefined) = (r, fx)"
    by (cases "getTodMarketsEndpoint L E ''/api/company'' (PValue JUndefined)")
  show ?thesis
    using assms
    by (auto simp: getWebsocketDetails_def g on_response_def on_error_def company_data_def
        split: sum.splits)
qed

lemma getWebsocketDetails_resolves: "fst (getWebsocketDetails L E wd) = Inr JUndefined"
proof (cases "company_data L E")
  case (Inl e)
  then show ?thesis by (simp add: getWebsocketDetails_fails)
next
  case (Inr data)
  show ?thesis
  proof (cases "nullish data")
    case True
    then show ?thesis using getWebsocketDetails_nullish [OF Inr True, of wd] by auto
  next
    case False
    then show ?thesis by (simp add: getWebsocketDetails_stores [OF Inr False])
  qed
qed

lemma getTodMarketsEndpoint_effects_kind:
  "list_all is_console_or_fetch (snd (getTodMarketsEndpoint L E endpoint ps))"
  using getTodMarketsEndpoint_effects [of L E endpoint ps] by auto

lemma getWebsocketDetails_effects_kind:
  "list_all is_console_or_fetch (snd (snd (getWebsocketDetails L E wd)))"
proof (cases "company_data L E")
  case (Inl e)
  then show ?thesis
    by (simp add: getWebsocketDetails_fails getTodMarketsEndpoint_effects_kind)
next
  case (Inr data)
  show ?thesis
  proof (cases "nullish data")
    case True
    then show ?thesis
      using getWebsocketDetails_nullish [OF Inr True, of wd]
      by (auto simp: getTodMarketsEndpoint_effects_kind)
  next
    case False
    then show ?thesis
      by (simp add: getWebsocketDetails_stores [OF Inr False] getTodMarketsEndpoint_effects_kind)
  qed
qed

lemma bindings_of_append: "bindings_of (xs @ ys) = bindings_of xs @ bindings_of ys"
  by (induction xs rule: bindings_of.induct) simp_all

lemma bindings_of_console_or_fetch: "list_all is_console_or_fetch fx \<Longrightarrow> bindings_of fx = []"
  by (induction fx rule: bindings_of.induct) simp_all

lemma PusherNew_not_console_or_fetch:
  "list_all is_console_or_fetch fx \<Longrightarrow> PusherNew k opts \<notin> set fx"
  by (induction fx) auto

lemma establish_unfold:
  "establishWebSocketConnection L E u wd =
     (let wd1 = fst (snd (getWebsocketDetails L E wd));
          fx1 = snd (snd (getWebsocketDetails L E wd));
          opts = pusher_config E u wd1;
          fx2 = fx1 @ [Pusher_logToConsole True, PusherNew (pusher_key wd1) opts]
      in case Pusher_new L (pusher_key wd1) opts of
           Some e \<Rightarrow> (Inl e, wd1, fx2)
         | None \<Rightarrow>
             (case Pusher_subscribe L (channel_key wd1) of
                Some e \<Rightarrow> (Inl e, wd1, fx2 @ [PusherSubscribe (channel_key wd1)])
              | None \<Rightarrow>
                  (Inr JUndefined, wd1,
                   fx2 @ [PusherSubscribe (channel_key wd1), ChannelBind ''update'' LogUpdate])))"
proof -
  obtain r wd1 fx1 where g: "getWebsocketDetails L E wd = (r, wd1, fx1)"
    by (cases "getWebsocketDetails L E wd") auto
  with getWebsocketDetails_resolves [of L E wd] have "r = Inr JUndefined" by simp
  with g show ?thesis by (simp add: establishWebSocketConnection_def Let_def)
qed

lemma establish_constructs:
  "PusherNew (pusher_key (fst (snd (getWebsocketDetails L E wd))))
     (pusher_config E u (fst (snd (getWebsocketDetails L E wd))))
   \<in> set (snd (snd (establishWebSocketConnection L E u wd)))"
  by (simp add: establish_unfold Let_def split: option.splits)

lemma establish_PusherNew_options:
  assumes "PusherNew key opts \<in> set (snd (snd (establishWebSocketConnection L E u wd)))"
  shows "opts = pusher_config E u (fst (snd (getWebsocketDetails L E wd)))"
  using assms PusherNew_not_console_or_fetch [OF getWebsocketDetails_effects_kind, of key opts L E wd]
  by (auto simp: establish_unfold Let_def split: option.splits)

lemma establish_bindings:
  "bindings_of (snd (snd (establishWebSocketConnection L E u wd))) =
     (case fst (establishWebSocketConnection L E u wd) of
        Inl e \<Rightarrow> [] | Inr v \<Rightarrow> [(''update'', LogUpdate)])"
  using bindings_of_console_or_fetch [OF getWebsocketDetails_effects_kind, of L E wd]
  by (simp add: establish_unfold Let_def bindings_of_append split: option.splits)

lemma strip_api_api: "strip_api (b @ ''/api'') = b"
  by (simp add: strip_api_def suffix_def)

lemma strip_api_api_slash: "strip_api (b @ ''/api/'') = b"
  by (simp add: strip_api_def suffix_def)

lemma getTodMarketsEndpoint_no_console_error:
  "\<not> list_ex is_console_error (snd (getTodMarketsEndpoint L E endpoint ps))"
  using getTodMarketsEndpoint_effects [of L E endpoint ps] by auto

lemma complete_not_nullish: "complete data \<Longrightarrow> \<not> nullish data"
  by (cases data) (auto simp: complete_def nullish_def required_fields_def)

lemma strip_api_other:
  "\<not> suffix ''/api'' d \<Longrightarrow> \<not> suffix ''/api/'' d \<Longrightarrow> strip_api d = d"
  by (simp add: strip_api_def)

lemma websocket_js_PusherNew:
  assumes r: "websocket_js L E ref_bound = Running fx ts"
    and m: "PusherNew key opts \<in> set (concat ts)"
  shows "\<exists>d k wd1. DOMAIN_URL E = Some d \<and> API_KEY E = Some k \<and>
           opts = pusher_config E (strip_api d) wd1"
proof -
  from r have k: "\<not> absent (API_KEY E)" and d: "\<not> absent (DOMAIN_URL E)"
    by (auto simp: websocket_js_def API_js_def split: if_splits)
  from k obtain kk where kk: "API_KEY E = Some kk" by (auto simp: absent_def split: option.splits)
  from d obtain dd where dd: "DOMAIN_URL E = Some dd" by (auto simp: absent_def split: option.splits)
  obtain res wd1 efx where
    e: "establishWebSocketConnection L E (strip_api dd) websocketDetails_init = (res, wd1, efx)"
    by (cases "establishWebSocketConnection L E (strip_api dd) websocketDetails_init") auto
  from r k d dd e have "ts = [efx @ (case res of Inl e \<Rightarrow> [Uncaught e] | Inr v \<Rightarrow> [])]"
    by (auto simp: websocket_js_def API_js_def environmentURL_value_def split: if_splits)
  with m have "PusherNew key opts \<in> set efx" by (auto split: sum.splits)
  then have "PusherNew key opts
      \<in> set (snd (snd (establishWebSocketConnection L E (strip_api dd) websocketDetails_init)))"
    by (simp add: e)
  from establish_PusherNew_options [OF this] kk dd show ?thesis by blast
qed

lemma scenario_run:
  "websocket_js scenario_lib example_env True =
     Running []
       [snd (snd (establishWebSocketConnection scenario_lib example_env
                    ''https://staging.todmarkets.com.au'' websocketDetails_init))]"
  by code_simp

lemma scenario_PusherNew:
  "PusherNew (JStr ''pk'') scenario_options
     \<in> set (snd (snd (establishWebSocketConnection scenario_lib example_env
                        ''https://staging.todmarkets.com.au'' websocketDetails_init)))"
  by code_simp

lemma getTodMarketsEndpoint_cong:
  "parameter_appends L p = parameter_appends L q \<Longrightarrow>
   getTodMarketsEndpoint L E endpoint p = getTodMarketsEndpoint L E endpoint q"
  by (simp add: getTodMarketsEndpoint_def cong: sum.case_cong)

lemma leading_question_mark:
  assumes "\<not> prefix ''??'' s"
  shows "parameter_appends L (PValue (JStr (CHR ''?'' # s))) = parameter_appends L (PValue (JStr s))"
proof (cases s)
  case Nil
  then show ?thesis by (simp add: parameter_appends_def URLSearchParams_new_def)
next
  case (Cons c t)
  show ?thesis
  proof (cases "c = CHR ''?''")
    case False
    with Cons show ?thesis by (simp add: parameter_appends_def)
  next
    case True
    with Cons assms have "\<not> prefix ''?'' t" by simp
    with Cons True show ?thesis
      by (cases t) (simp_all add: parameter_appends_def URLSearchParams_new_def)
  qed
qed

lemma object_appends_filter:
  "object_appends (JObj (filter (\<lambda>e. \<not> nullish (snd e)) es)) = object_appends (JObj es)"
  by (induction es) (auto simp: object_appends_def entry_appends_def nullish_def)

lemma entry_appends_key: "p \<in> set (entry_appends (k, v)) \<Longrightarrow> fst p = k"
  by (auto simp: entry_appends_def split: if_splits jsval.splits)

lemma other_keys_filtered:
  "k \<notin> fst ` set es \<Longrightarrow> filter (\<lambda>p. fst p = k) (concat (map entry_appends es)) = []"
proof (induction es)
  case Nil
  then show ?case by simp
next
  case (Cons e es)
  obtain k' v where e: "e = (k', v)" by (cases e)
  with Cons.prems have "k' \<noteq> k" by auto
  then have "filter (\<lambda>p. fst p = k) (entry_appends (k', v)) = []"
    by (auto simp: filter_empty_conv dest: entry_appends_key)
  with Cons e show ?case by simp
qed

lemma array_appends:
  "distinct (map fst es) \<Longrightarrow> (k, JArr vals) \<in> set es \<Longrightarrow>
   filter (\<lambda>p. fst p = k) (object_appends (JObj es)) = map (\<lambda>val. (k, String_js val)) vals"
proof (induction es)
  case Nil
  then show ?case by simp
next
  case (Cons e es)
  obtain k' v where e: "e = (k', v)" by (cases e)
  show ?case
  proof (cases "e = (k, JArr vals)")
    case True
    with Cons.prems have "k \<notin> fst ` set es" by auto
    then have "filter (\<lambda>p. fst p = k) (concat (map entry_appends es)) = []"
      by (rule other_keys_filtered)
    moreover have "filter (\<lambda>p. fst p = k) (entry_appends (k, JArr vals))
        = map (\<lambda>val. (k, String_js val)) vals"
      by (induction vals) (simp_all add: entry_appends_def)
    ultimately show ?thesis using True by (simp add: object_appends_def)
  next
    case False
    with Cons.prems have m: "(k, JArr vals) \<in> set es" and d: "distinct (map fst es)" by auto
    from m have "k \<in> fst ` set es" by force
    with Cons.prems e have "k' \<noteq> k" by auto
    then have "filter (\<lambda>p. fst p = k) (entry_appends (k', v)) = []"
      by (auto simp: filter_empty_conv dest: entry_appends_key)
    with Cons.IH [OF d m] e show ?thesis by (simp add: object_appends_def)
  qed
qed






lemma request_effects:
  "URL_new L endpoint (DOMAIN_URL E) = Inr url0 \<Longrightarrow> parameter_appends L ps = Inr pairs \<Longrightarrow>
   snd (getTodMarketsEndpoint L E endpoint ps) =
     [ConsoleLog [LStr (''Fetching: '' @ URL_toString L (append_all L url0 pairs))],
      FetchCall (URL_toString L (append_all L url0 pairs)) (requestOptions (API_KEY E))]"
  by (simp add: getTodMarketsEndpoint_def Let_def split: sum.splits)

lemma append_all_snoc:
  "append_all L url (ps @ [(k, v)]) = searchParams_append L (append_all L url ps) k v"
  by (induction ps arbitrary: url) auto

lemma object_appends_split:
  "object_appends (JObj (es1 @ e # es2)) =
     object_appends (JObj es1) @ entry_appends e @ object_appends (JObj es2)"
  by (simp add: object_appends_def)

section \<open>The claims\<close>

text \<open>C1, as amended: \<open>establishWebSocketConnection\<close> constructs the Pusher client in
  every execution, whatever the credential fetch did. After a failed fetch it passes
  the cache as it was before the call (all \<open>null\<close> at start); after a payload that is an
  object it passes that payload's properties, \<open>undefined\<close> for each one the payload
  lacks. No check of the credential fields stands before the construction.\<close>

theorem establish_connects_unconditionally:
  "list_ex is_PusherNew (snd (snd (establishWebSocketConnection L E u wd))) \<and>
   (company_data L E = Inl e \<longrightarrow>
      PusherNew (pusher_key wd) (pusher_config E u wd)
        \<in> set (snd (snd (establishWebSocketConnection L E u wd)))) \<and>
   (company_data L E = Inr data \<and> \<not> nullish data \<longrightarrow>
      PusherNew (field_of data ''pusher_key'') (pusher_config E u (stored data))
        \<in> set (snd (snd (establishWebSocketConnection L E u wd))))"
proof (intro conjI impI)
  show "list_ex is_PusherNew (snd (snd (establishWebSocketConnection L E u wd)))"
    unfolding list_ex_iff using establish_constructs [of L E wd u] is_PusherNew.simps(1) by blast
next
  assume "company_data L E = Inl e"
  then show "PusherNew (pusher_key wd) (pusher_config E u wd)
        \<in> set (snd (snd (establishWebSocketConnection L E u wd)))"
    using establish_constructs [of L E wd u] by (simp add: getWebsocketDetails_fails)
next
  assume "company_data L E = Inr data \<and> \<not> nullish data"
  then show "PusherNew (field_of data ''pusher_key'') (pusher_config E u (stored data))
        \<in> set (snd (snd (establishWebSocketConnection L E u wd)))"
    using establish_constructs [of L E wd u]
    by (simp add: getWebsocketDetails_stores stored_def)
qed

theorem establish_connects_unconditionally_witness:
  "company_data failing_lib example_env = Inl (TypeError ''fetch failed'') \<and>
   PusherNew (pusher_key websocketDetails_init)
       (pusher_config example_env ''https://staging.todmarkets.com.au'' websocketDetails_init)
     \<in> set (snd (snd (establishWebSocketConnection failing_lib example_env
                        ''https://staging.todmarkets.com.au'' websocketDetails_init))) \<and>
   company_data partial_lib example_env = Inr partial_data \<and> \<not> nullish partial_data \<and>
   PusherNew (field_of partial_data ''pusher_key'')
       (pusher_config example_env ''https://staging.todmarkets.com.au'' (stored partial_data))
     \<in> set (snd (snd (establishWebSocketConnection partial_lib example_env
                        ''https://staging.todmarkets.com.au'' websocketDetails_init)))"
proof -
  have f: "company_data failing_lib example_env = Inl (TypeError ''fetch failed'')"
    by code_simp
  have p: "company_data partial_lib example_env = Inr partial_data"
    by code_simp
  have n: "\<not> nullish partial_data"
    by (simp add: nullish_def partial_data_def)
  show ?thesis
    using f p n
      establish_connects_unconditionally
        [of failing_lib example_env "''https://staging.todmarkets.com.au''" websocketDetails_init
            "TypeError ''fetch failed''"]
      establish_connects_unconditionally
        [of partial_lib example_env "''https://staging.todmarkets.com.au''" websocketDetails_init
            _ partial_data]
    by simp
qed

text \<open>The claim as stated fails: the fetch fails and the client is constructed with a \<open>null\<close> key; the payload lacks \<open>pusher_key\<close> and the client is constructed with an \<open>undefined\<close> key.\<close>

theorem connects_without_credentials_counterexample:
  "company_data failing_lib example_env = Inl (TypeError ''fetch failed'') \<and>
   PusherNew JNull
       \<lparr> cluster = JNull, wsHost = JNull, activityTimeout = 30000, pongTimeout = 10000,
         wsPort = 80, forceTLS = False,
         authEndpoint = ''https://staging.todmarkets.com.au/broadcasting/auth'',
         auth_headers = [(''Authorization'', ''Bearer secret'')] \<rparr>
     \<in> set (snd (snd (establishWebSocketConnection failing_lib example_env
                        ''https://staging.todmarkets.com.au'' websocketDetails_init))) \<and>
   company_data partial_lib example_env = Inr partial_data \<and>
   \<not> complete partial_data \<and>
   PusherNew JUndefined
       \<lparr> cluster = JStr ''us'', wsHost = JStr ''h2'', activityTimeout = 30000,
         pongTimeout = 10000, wsPort = 80, forceTLS = False,
         authEndpoint = ''https://staging.todmarkets.com.au/broadcasting/auth'',
         auth_headers = [(''Authorization'', ''Bearer secret'')] \<rparr>
     \<in> set (snd (snd (establishWebSocketConnection partial_lib example_env
                        ''https://staging.todmarkets.com.au'' websocketDetails_init)))"
  by code_simp


text \<open>C2, as amended: a refresh whose payload is an object lacking a required field does
  not fail. \<open>getWebsocketDetails\<close> resolves, logs no error, and overwrites every field
  of \<open>websocketDetails\<close> with the payload's property, so that a missing property is
  stored as \<open>undefined\<close>. The cache is left as it was only when an error reaches
  \<open>.catch\<close> before the first write: the request, the reading of the body or the parse
  fails, or \<open>data\<close> itself is \<open>null\<close> or \<open>undefined\<close>.\<close>

theorem refresh_overwrites_cache:
  "(company_data L E = Inr (JObj es) \<longrightarrow>
      fst (getWebsocketDetails L E wd) = Inr JUndefined \<and>
      \<not> list_ex is_console_error (snd (snd (getWebsocketDetails L E wd))) \<and>
      fst (snd (getWebsocketDetails L E wd)) = stored (JObj es) \<and>
      (map_of es p = None \<longrightarrow> field_of (JObj es) p = JUndefined)) \<and>
   (company_data L E = Inl e \<longrightarrow> fst (snd (getWebsocketDetails L E wd)) = wd) \<and>
   (company_data L E = Inr d \<and> nullish d \<longrightarrow> fst (snd (getWebsocketDetails L E wd)) = wd)"
proof (intro conjI impI)
  assume a: "company_data L E = Inr (JObj es)"
  have n: "\<not> nullish (JObj es)" by (simp add: nullish_def)
  show "fst (getWebsocketDetails L E wd) = Inr JUndefined"
    by (simp add: getWebsocketDetails_resolves)
  show "\<not> list_ex is_console_error (snd (snd (getWebsocketDetails L E wd)))"
    using getTodMarketsEndpoint_no_console_error [of L E "''/api/company''" "PValue JUndefined"]
    by (simp add: getWebsocketDetails_stores [OF a n])
  show "fst (snd (getWebsocketDetails L E wd)) = stored (JObj es)"
    by (simp add: getWebsocketDetails_stores [OF a n])
next
  assume "map_of es p = None"
  then show "field_of (JObj es) p = JUndefined" by simp
next
  assume "company_data L E = Inl e"
  then show "fst (snd (getWebsocketDetails L E wd)) = wd"
    by (simp add: getWebsocketDetails_fails)
next
  assume "company_data L E = Inr d \<and> nullish d"
  then show "fst (snd (getWebsocketDetails L E wd)) = wd"
    using getWebsocketDetails_nullish [of L E d wd] by auto
qed

theorem refresh_overwrites_cache_witness:
  "company_data partial_lib example_env = Inr partial_data \<and>
   fst (getWebsocketDetails partial_lib example_env (stored scenario_data)) = Inr JUndefined \<and>
   \<not> list_ex is_console_error
       (snd (snd (getWebsocketDetails partial_lib example_env (stored scenario_data)))) \<and>
   fst (snd (getWebsocketDetails partial_lib example_env (stored scenario_data)))
     = stored partial_data \<and>
   field_of partial_data ''pusher_key'' = JUndefined \<and>
   company_data failing_lib example_env = Inl (TypeError ''fetch failed'') \<and>
   fst (snd (getWebsocketDetails failing_lib example_env (stored scenario_data)))
     = stored scenario_data \<and>
   company_data empty_lib example_env = Inr JUndefined \<and> nullish JUndefined \<and>
   fst (snd (getWebsocketDetails empty_lib example_env (stored scenario_data)))
     = stored scenario_data"
proof -
  have p: "company_data partial_lib example_env = Inr partial_data" by code_simp
  have f: "company_data failing_lib example_env = Inl (TypeError ''fetch failed'')" by code_simp
  have e: "company_data empty_lib example_env = Inr JUndefined" by code_simp
  have n: "nullish JUndefined" by (simp add: nullish_def)
  have k: "map_of [(''id'', JStr ''c2''), (''name'', JStr ''Bolt''), (''channel_key'', JStr ''k2''),
           (''channel_key_expiry'', JStr ''2099-01-01T00:00:00Z''), (''pusher_host'', JStr ''h2''),
           (''pusher_cluster'', JStr ''us'')] ''pusher_key'' = None" by simp
  show ?thesis
    using p f e n k
      refresh_overwrites_cache [of partial_lib example_env _ "stored scenario_data" "''pusher_key''"]
      refresh_overwrites_cache [of failing_lib example_env _ "stored scenario_data" _
         "TypeError ''fetch failed''"]
      refresh_overwrites_cache [of empty_lib example_env _ "stored scenario_data" _ _ JUndefined]
    unfolding partial_data_def by simp
qed

text \<open>The claim as stated fails: over a full cache, a payload without \<open>pusher_key\<close> raises nothing, logs no error and replaces all seven fields.\<close>

theorem incomplete_refresh_overwrites_counterexample:
  "company_data partial_lib example_env = Inr partial_data \<and>
   \<not> complete partial_data \<and>
   fst (getWebsocketDetails partial_lib example_env (stored scenario_data)) = Inr JUndefined \<and>
   \<not> list_ex is_console_error
       (snd (snd (getWebsocketDetails partial_lib example_env (stored scenario_data)))) \<and>
   stored scenario_data =
     \<lparr> id_wd = JStr ''c1'', name_wd = JStr ''Acme'', channel_key = JStr ''k1'',
       channel_key_expiry = JStr ''2099-01-01T00:00:00Z'', pusher_host = JStr ''h'',
       pusher_key = JStr ''pk'', pusher_cluster = JStr ''eu'' \<rparr> \<and>
   fst (snd (getWebsocketDetails partial_lib example_env (stored scenario_data))) =
     \<lparr> id_wd = JStr ''c2'', name_wd = JStr ''Bolt'', channel_key = JStr ''k2'',
       channel_key_expiry = JStr ''2099-01-01T00:00:00Z'', pusher_host = JStr ''h2'',
       pusher_key = JUndefined, pusher_cluster = JStr ''us'' \<rparr>"
  by code_simp


text \<open>C3: for a payload with every required field present and non-empty, the refresh
  succeeds (the promise resolves and no error is logged) and each field of the cache
  read afterwards, \<open>id\<close>, \<open>name\<close>, \<open>channel_key\<close>, \<open>channel_key_expiry\<close>, \<open>pusher_host\<close>,
  \<open>pusher_key\<close> and \<open>pusher_cluster\<close>, is the payload's property of that name.\<close>

theorem refresh_stores_payload:
  assumes "company_data L E = Inr data" and "complete data"
  shows "fst (getWebsocketDetails L E wd) = Inr JUndefined \<and>
         \<not> list_ex is_console_error (snd (snd (getWebsocketDetails L E wd))) \<and>
         id_wd (fst (snd (getWebsocketDetails L E wd))) = field_of data ''id'' \<and>
         name_wd (fst (snd (getWebsocketDetails L E wd))) = field_of data ''name'' \<and>
         channel_key (fst (snd (getWebsocketDetails L E wd))) = field_of data ''channel_key'' \<and>
         channel_key_expiry (fst (snd (getWebsocketDetails L E wd)))
           = field_of data ''channel_key_expiry'' \<and>
         pusher_host (fst (snd (getWebsocketDetails L E wd))) = field_of data ''pusher_host'' \<and>
         pusher_key (fst (snd (getWebsocketDetails L E wd))) = field_of data ''pusher_key'' \<and>
         pusher_cluster (fst (snd (getWebsocketDetails L E wd)))
           = field_of data ''pusher_cluster''"
proof -
  have n: "\<not> nullish data" using assms(2) by (rule complete_not_nullish)
  show ?thesis
    using getTodMarketsEndpoint_no_console_error [of L E "''/api/company''" "PValue JUndefined"]
    by (simp add: getWebsocketDetails_stores [OF assms(1) n] stored_def)
qed

theorem refresh_stores_payload_witness:
  "company_data scenario_lib example_env = Inr scenario_data \<and> complete scenario_data \<and>
   fst (getWebsocketDetails scenario_lib example_env websocketDetails_init) = Inr JUndefined \<and>
   \<not> list_ex is_console_error
       (snd (snd (getWebsocketDetails scenario_lib example_env websocketDetails_init))) \<and>
   id_wd (fst (snd (getWebsocketDetails scenario_lib example_env websocketDetails_init)))
     = JStr ''c1'' \<and>
   name_wd (fst (snd (getWebsocketDetails scenario_lib example_env websocketDetails_init)))
     = JStr ''Acme'' \<and>
   channel_key (fst (snd (getWebsocketDetails scenario_lib example_env websocketDetails_init)))
     = JStr ''k1'' \<and>
   channel_key_expiry
     (fst (snd (getWebsocketDetails scenario_lib example_env websocketDetails_init)))
     = JStr ''2099-01-01T00:00:00Z'' \<and>
   pusher_host (fst (snd (getWebsocketDetails scenario_lib example_env websocketDetails_init)))
     = JStr ''h'' \<and>
   pusher_key (fst (snd (getWebsocketDetails scenario_lib example_env websocketDetails_init)))
     = JStr ''pk'' \<and>
   pusher_cluster (fst (snd (getWebsocketDetails scenario_lib example_env websocketDetails_init)))
     = JStr ''eu''"
proof -
  have c: "company_data scenario_lib example_env = Inr scenario_data" by code_simp
  have v: "complete scenario_data" by code_simp
  have s: "field_of scenario_data ''id'' = JStr ''c1''"
    "field_of scenario_data ''name'' = JStr ''Acme''"
    "field_of scenario_data ''channel_key'' = JStr ''k1''"
    "field_of scenario_data ''channel_key_expiry'' = JStr ''2099-01-01T00:00:00Z''"
    "field_of scenario_data ''pusher_host'' = JStr ''h''"
    "field_of scenario_data ''pusher_key'' = JStr ''pk''"
    "field_of scenario_data ''pusher_cluster'' = JStr ''eu''"
    by (simp_all add: scenario_data_def)
  show ?thesis
    using c v refresh_stores_payload [OF c v, of websocketDetails_init]
    by (simp add: s)
qed


text \<open>C4, as amended: when \<open>establishWebSocketConnection\<close> completes it has subscribed
  the channel named by \<open>websocketDetails.channel_key\<close> and bound exactly one callback on
  it, the logger under the event name \<open>update\<close>; when it fails it has bound none. An
  inbound \<open>update\<close> event reaches that callback exactly once with its payload unmodified,
  and is logged; an inbound event of any other name, \<open>OrderFilled\<close> included, reaches no
  callback. The \<open>channels\<close> table lists the four events under their namespaced names
  (\<open>App\Events\OrderFilled\<close> and so on), each with a callback that hands the \<open>data\<close>
  property of its argument to \<open>queueRowUpdate\<close>; nothing binds them to a channel.\<close>

theorem only_update_is_bound:
  "deliver (bindings_of (snd (snd (establishWebSocketConnection L E u wd)))) ev payload =
     (case fst (establishWebSocketConnection L E u wd) of
        Inl e \<Rightarrow> []
      | Inr v \<Rightarrow> if ev = ''update'' then [(LogUpdate, payload)] else []) \<and>
   invoke LogUpdate payload = [ConsoleLog [LStr ''Received update:'', LVal payload]] \<and>
   (case fst (establishWebSocketConnection L E u wd) of
      Inl e \<Rightarrow> True
    | Inr v \<Rightarrow> PusherSubscribe (channel_key (fst (snd (getWebsocketDetails L E wd))))
                 \<in> set (snd (snd (establishWebSocketConnection L E u wd)))) \<and>
   map fst channels_events =
     [''App'' @ [backslash] @ ''Events'' @ [backslash] @ ''AssetPriceChangeEventCompany'',
      ''App'' @ [backslash] @ ''Events'' @ [backslash] @ ''OrderUpdated'',
      ''App'' @ [backslash] @ ''Events'' @ [backslash] @ ''OrderFilled'',
      ''App'' @ [backslash] @ ''Events'' @ [backslash] @ ''OrderCreated''] \<and>
   map (\<lambda>b. invoke (snd b) (JObj [(''data'', payload)])) channels_events =
     replicate 4 [QueueRowUpdate payload]"
proof (intro conjI)
  show "deliver (bindings_of (snd (snd (establishWebSocketConnection L E u wd)))) ev payload =
     (case fst (establishWebSocketConnection L E u wd) of
        Inl e \<Rightarrow> []
      | Inr v \<Rightarrow> if ev = ''update'' then [(LogUpdate, payload)] else [])"
    by (simp add: establish_bindings deliver_def split: sum.splits)
  show "invoke LogUpdate payload = [ConsoleLog [LStr ''Received update:'', LVal payload]]"
    by simp
  show "case fst (establishWebSocketConnection L E u wd) of
      Inl e \<Rightarrow> True
    | Inr v \<Rightarrow> PusherSubscribe (channel_key (fst (snd (getWebsocketDetails L E wd))))
                 \<in> set (snd (snd (establishWebSocketConnection L E u wd)))"
    by (simp add: establish_unfold Let_def split: option.splits)
  show "map fst channels_events =
     [''App'' @ [backslash] @ ''Events'' @ [backslash] @ ''AssetPriceChangeEventCompany'',
      ''App'' @ [backslash] @ ''Events'' @ [backslash] @ ''OrderUpdated'',
      ''App'' @ [backslash] @ ''Events'' @ [backslash] @ ''OrderFilled'',
      ''App'' @ [backslash] @ ''Events'' @ [backslash] @ ''OrderCreated'']"
    by (simp add: channels_events_def)
  show "map (\<lambda>b. invoke (snd b) (JObj [(''data'', payload)])) channels_events =
     replicate 4 [QueueRowUpdate payload]"
    by (simp add: channels_events_def get_prop_def nullish_def numeral_eq_Suc)
qed

text \<open>The claim as stated fails: in the scenario the connection is established and \<open>k1\<close> subscribed, and an inbound \<open>OrderFilled\<close>, under its plain or its namespaced name, reaches no callback.\<close>

theorem order_filled_not_routed_counterexample:
  "company_data scenario_lib example_env = Inr scenario_data \<and>
   fst (establishWebSocketConnection scenario_lib example_env
          ''https://staging.todmarkets.com.au'' websocketDetails_init) = Inr JUndefined \<and>
   PusherSubscribe (JStr ''k1'')
     \<in> set (snd (snd (establishWebSocketConnection scenario_lib example_env
                        ''https://staging.todmarkets.com.au'' websocketDetails_init))) \<and>
   bindings_of (snd (snd (establishWebSocketConnection scenario_lib example_env
                        ''https://staging.todmarkets.com.au'' websocketDetails_init)))
     = [(''update'', LogUpdate)] \<and>
   deliver (bindings_of (snd (snd (establishWebSocketConnection scenario_lib example_env
                        ''https://staging.todmarkets.com.au'' websocketDetails_init))))
     ''OrderFilled'' (JObj [(''id'', JNum ''42'')]) = [] \<and>
   deliver (bindings_of (snd (snd (establishWebSocketConnection scenario_lib example_env
                        ''https://staging.todmarkets.com.au'' websocketDetails_init))))
     (''App'' @ [backslash] @ ''Events'' @ [backslash] @ ''OrderFilled'')
     (JObj [(''id'', JNum ''42'')]) = []"
  by code_simp


text \<open>C5, as amended: a refresh that gets as far as the request logs the request URL
  (\<open>Fetching: ...\<close>); a refresh whose response parses logs the whole \<open>data\<close> object
  under \<open>Websocket Details:\<close>, the \<open>pusher_key\<close> in it included; a refresh that fails
  logs the error.\<close>

theorem refresh_logs_payload:
  "(company_data L E = Inr data \<longrightarrow>
      ConsoleLog [LStr ''Websocket Details:'', LVal data]
        \<in> set (snd (snd (getWebsocketDetails L E wd)))) \<and>
   (URL_new L ''/api/company'' (DOMAIN_URL E) = Inr url \<longrightarrow>
      ConsoleLog [LStr (''Fetching: '' @ URL_toString L url)]
        \<in> set (snd (snd (getWebsocketDetails L E wd)))) \<and>
   (company_data L E = Inl e \<longrightarrow>
      ConsoleError [LStr ''Error fetching websocket details:'', LErr e]
        \<in> set (snd (snd (getWebsocketDetails L E wd))))"
proof (intro conjI impI)
  assume a: "company_data L E = Inr data"
  show "ConsoleLog [LStr ''Websocket Details:'', LVal data]
        \<in> set (snd (snd (getWebsocketDetails L E wd)))"
  proof (cases "nullish data")
    case True
    then show ?thesis using getWebsocketDetails_nullish [OF a True, of wd] by auto
  next
    case False
    then show ?thesis by (simp add: getWebsocketDetails_stores [OF a False])
  qed
next
  assume u: "URL_new L ''/api/company'' (DOMAIN_URL E) = Inr url"
  have m: "ConsoleLog [LStr (''Fetching: '' @ URL_toString L url)]
            \<in> set (snd (getTodMarketsEndpoint L E ''/api/company'' (PValue JUndefined)))"
    by (simp add: company_fetch_logs_url [OF u])
  show "ConsoleLog [LStr (''Fetching: '' @ URL_toString L url)]
        \<in> set (snd (snd (getWebsocketDetails L E wd)))"
  proof (cases "company_data L E")
    case (Inl e)
    then show ?thesis using m by (simp add: getWebsocketDetails_fails)
  next
    case (Inr data)
    show ?thesis
    proof (cases "nullish data")
      case True
      then show ?thesis using m getWebsocketDetails_nullish [OF Inr True, of wd] by auto
    next
      case False
      then show ?thesis using m by (simp add: getWebsocketDetails_stores [OF Inr False])
    qed
  qed
next
  assume "company_data L E = Inl e"
  then show "ConsoleError [LStr ''Error fetching websocket details:'', LErr e]
        \<in> set (snd (snd (getWebsocketDetails L E wd)))"
    by (simp add: getWebsocketDetails_fails)
qed

theorem refresh_logs_payload_witness:
  "company_data scenario_lib example_env = Inr scenario_data \<and>
   ConsoleLog [LStr ''Websocket Details:'', LVal scenario_data]
     \<in> set (snd (snd (getWebsocketDetails scenario_lib example_env websocketDetails_init))) \<and>
   URL_new scenario_lib ''/api/company'' (DOMAIN_URL example_env)
     = Inr (''https://staging.todmarkets.com.au/api/company'', []) \<and>
   ConsoleLog [LStr ''Fetching: https://staging.todmarkets.com.au/api/company'']
     \<in> set (snd (snd (getWebsocketDetails scenario_lib example_env websocketDetails_init))) \<and>
   company_data failing_lib example_env = Inl (TypeError ''fetch failed'') \<and>
   ConsoleError [LStr ''Error fetching websocket details:'', LErr (TypeError ''fetch failed'')]
     \<in> set (snd (snd (getWebsocketDetails failing_lib example_env websocketDetails_init)))"
proof -
  have c: "company_data scenario_lib example_env = Inr scenario_data" by code_simp
  have u: "URL_new scenario_lib ''/api/company'' (DOMAIN_URL example_env)
     = Inr (''https://staging.todmarkets.com.au/api/company'', [])" by code_simp
  have t: "URL_toString scenario_lib (''https://staging.todmarkets.com.au/api/company'', [])
     = ''https://staging.todmarkets.com.au/api/company''" by code_simp
  have f: "company_data failing_lib example_env = Inl (TypeError ''fetch failed'')" by code_simp
  show ?thesis
    using c u f
      refresh_logs_payload [of scenario_lib example_env scenario_data websocketDetails_init
        "(''https://staging.todmarkets.com.au/api/company'', [])"]
      refresh_logs_payload [of failing_lib example_env _ websocketDetails_init _
        "TypeError ''fetch failed''"]
    by (simp add: t)
qed

text \<open>The claim as stated fails: the log of the scenario refresh holds the payload with its \<open>pusher_key\<close>.\<close>

theorem transport_key_logged_counterexample:
  "field_of scenario_data ''pusher_key'' = JStr ''pk'' \<and>
   company_data scenario_lib example_env = Inr scenario_data \<and>
   snd (snd (getWebsocketDetails scenario_lib example_env websocketDetails_init)) =
     [ConsoleLog [LStr ''Fetching: https://staging.todmarkets.com.au/api/company''],
      FetchCall ''https://staging.todmarkets.com.au/api/company''
        \<lparr> req_method = ''GET'', req_redirect = ''follow'',
          req_headers = [(''Authorization'', ''Bearer secret''),
                         (''Content-Type'', ''application/json'')],
          req_body = None \<rparr>,
      ConsoleLog [LStr ''Websocket Details:'',
        LVal (JObj [(''id'', JStr ''c1''), (''name'', JStr ''Acme''), (''channel_key'', JStr ''k1''),
                    (''channel_key_expiry'', JStr ''2099-01-01T00:00:00Z''),
                    (''pusher_host'', JStr ''h''), (''pusher_key'', JStr ''pk''),
                    (''pusher_cluster'', JStr ''eu'')])]]"
  by code_simp





text \<open>C7: with \<open>API_KEY\<close> or \<open>DOMAIN_URL\<close> missing (unset or empty), loading \<open>API.js\<close>
  prints the error naming the missing setting and exits with status 1, and so does
  running \<open>websocket.js\<close>, which loads \<open>API.js\<close> first: no \<open>fetch\<close>, no Pusher
  construction and no subscription is ever issued.\<close>

theorem missing_configuration_exits:
  assumes "absent (API_KEY E) \<or> absent (DOMAIN_URL E)"
  shows "API_js L E is_main =
           Exited [ConsoleError
                     [LStr (if absent (API_KEY E)
                            then ''Missing API_KEY in environment. Please set API_KEY in your .env file.''
                            else ''Missing DOMAIN_URL in environment. Please set DOMAIN_URL in your .env file.'')],
                   ProcessExit 1] \<and>
         websocket_js L E ref_bound = API_js L E is_main \<and>
         \<not> list_ex is_request (run_effects (API_js L E is_main)) \<and>
         \<not> list_ex is_request (run_effects (websocket_js L E ref_bound))"
  using assms by (auto simp: API_js_def websocket_js_def)

theorem missing_configuration_exits_witness:
  "absent (API_KEY \<lparr> API_KEY = None, DOMAIN_URL = Some staging \<rparr>) \<and>
   API_js scenario_lib \<lparr> API_KEY = None, DOMAIN_URL = Some staging \<rparr> True =
     Exited [ConsoleError
               [LStr ''Missing API_KEY in environment. Please set API_KEY in your .env file.''],
             ProcessExit 1] \<and>
   websocket_js scenario_lib \<lparr> API_KEY = None, DOMAIN_URL = Some staging \<rparr> True =
     Exited [ConsoleError
               [LStr ''Missing API_KEY in environment. Please set API_KEY in your .env file.''],
             ProcessExit 1] \<and>
   absent (DOMAIN_URL \<lparr> API_KEY = Some ''secret'', DOMAIN_URL = Some [] \<rparr>) \<and>
   websocket_js scenario_lib \<lparr> API_KEY = Some ''secret'', DOMAIN_URL = Some [] \<rparr> True =
     Exited [ConsoleError
               [LStr ''Missing DOMAIN_URL in environment. Please set DOMAIN_URL in your .env file.''],
             ProcessExit 1] \<and>
   \<not> list_ex is_request
       (run_effects (websocket_js scenario_lib \<lparr> API_KEY = None, DOMAIN_URL = Some staging \<rparr> True))"
proof -
  have a: "absent (API_KEY \<lparr> API_KEY = None, DOMAIN_URL = Some staging \<rparr>)"
    "absent (DOMAIN_URL \<lparr> API_KEY = Some ''secret'', DOMAIN_URL = Some [] \<rparr>)"
    "\<not> absent (API_KEY \<lparr> API_KEY = Some ''secret'', DOMAIN_URL = Some [] \<rparr>)"
    by (simp_all add: absent_def)
  show ?thesis
    using a
      missing_configuration_exits
        [of "\<lparr> API_KEY = None, DOMAIN_URL = Some staging \<rparr>" scenario_lib True True]
      missing_configuration_exits
        [of "\<lparr> API_KEY = Some ''secret'', DOMAIN_URL = Some [] \<rparr>" scenario_lib True True]
    by simp
qed


text \<open>C8: in a run of \<open>websocket.js\<close>, the options of every Pusher client constructed
  make the transport send its channel-authorization request to the backend base URL
  with one trailing \<open>/api\<close> or \<open>/api/\<close> removed (a base URL without such an end is
  kept whole), followed by \<open>/broadcasting/auth\<close>, with the header
  \<open>Authorization: Bearer API_KEY\<close> and the socket id the transport supplies.\<close>

theorem authorization_request:
  "(websocket_js L E ref_bound = Running fx ts \<and> PusherNew key opts \<in> set (concat ts) \<longrightarrow>
      (\<exists>d k. DOMAIN_URL E = Some d \<and> API_KEY E = Some k \<and>
         fst (authorize_request opts socket_id channel_name)
           = strip_api d @ ''/broadcasting/auth'' \<and>
         map_of (req_headers (snd (authorize_request opts socket_id channel_name)))
           ''Authorization'' = Some (''Bearer '' @ k) \<and>
         req_body (snd (authorize_request opts socket_id channel_name))
           = Some (''socket_id='' @ socket_id @ ''&channel_name='' @ channel_name))) \<and>
   strip_api (b @ ''/api'') = b \<and> strip_api (b @ ''/api/'') = b \<and>
   (\<not> suffix ''/api'' b \<and> \<not> suffix ''/api/'' b \<longrightarrow> strip_api b = b)"
proof (intro conjI impI)
  assume a: "websocket_js L E ref_bound = Running fx ts \<and> PusherNew key opts \<in> set (concat ts)"
  then obtain d k wd1 where "DOMAIN_URL E = Some d" "API_KEY E = Some k"
    "opts = pusher_config E (strip_api d) wd1"
    using websocket_js_PusherNew [of L E ref_bound fx ts key opts] by blast
  then show "\<exists>d k. DOMAIN_URL E = Some d \<and> API_KEY E = Some k \<and>
         fst (authorize_request opts socket_id channel_name)
           = strip_api d @ ''/broadcasting/auth'' \<and>
         map_of (req_headers (snd (authorize_request opts socket_id channel_name)))
           ''Authorization'' = Some (''Bearer '' @ k) \<and>
         req_body (snd (authorize_request opts socket_id channel_name))
           = Some (''socket_id='' @ socket_id @ ''&channel_name='' @ channel_name)"
    by (simp add: authorize_request_def pusher_config_def interpolate_def)
next
  show "strip_api (b @ ''/api'') = b" by (rule strip_api_api)
  show "strip_api (b @ ''/api/'') = b" by (rule strip_api_api_slash)
next
  assume "\<not> suffix ''/api'' b \<and> \<not> suffix ''/api/'' b"
  then show "strip_api b = b" by (simp add: strip_api_other)
qed

theorem authorization_request_witness:
  "websocket_js scenario_lib example_env True =
     Running []
       [snd (snd (establishWebSocketConnection scenario_lib example_env
                    ''https://staging.todmarkets.com.au'' websocketDetails_init))] \<and>
   PusherNew (JStr ''pk'') scenario_options
     \<in> set (concat [snd (snd (establishWebSocketConnection scenario_lib example_env
                        ''https://staging.todmarkets.com.au'' websocketDetails_init))]) \<and>
   DOMAIN_URL example_env = Some ''https://staging.todmarkets.com.au/api/'' \<and>
   fst (authorize_request scenario_options ''1234.5678'' ''private-k1'')
     = ''https://staging.todmarkets.com.au/broadcasting/auth'' \<and>
   map_of (req_headers (snd (authorize_request scenario_options ''1234.5678'' ''private-k1'')))
     ''Authorization'' = Some ''Bearer secret'' \<and>
   req_body (snd (authorize_request scenario_options ''1234.5678'' ''private-k1''))
     = Some ''socket_id=1234.5678&channel_name=private-k1'' \<and>
   \<not> suffix ''/api'' ''https://example.test/v2'' \<and> \<not> suffix ''/api/'' ''https://example.test/v2'' \<and>
   strip_api ''https://example.test/v2'' = ''https://example.test/v2''"
proof -
  have m: "PusherNew (JStr ''pk'') scenario_options
     \<in> set (concat [snd (snd (establishWebSocketConnection scenario_lib example_env
                        ''https://staging.todmarkets.com.au'' websocketDetails_init))])"
    using scenario_PusherNew by simp
  have d: "DOMAIN_URL example_env = Some ''https://staging.todmarkets.com.au/api/''"
    "API_KEY example_env = Some ''secret''"
    by (simp_all add: example_env_def staging_def)
  have s: "strip_api ''https://staging.todmarkets.com.au/api/'' = ''https://staging.todmarkets.com.au''"
    by code_simp
  have n: "\<not> suffix ''/api'' ''https://example.test/v2''"
    "\<not> suffix ''/api/'' ''https://example.test/v2''"
    by code_simp+
  show ?thesis
    using scenario_run m d s n
      authorization_request [of scenario_lib example_env True "[]"
        "[snd (snd (establishWebSocketConnection scenario_lib example_env
                    ''https://staging.todmarkets.com.au'' websocketDetails_init))]"
        "JStr ''pk''" scenario_options "''1234.5678''" "''private-k1''"
        "''https://example.test/v2''"]
    by (simp add: authorize_request_def scenario_options_def)
qed


text \<open>C9, as amended: \<open>getTodMarketsEndpoint\<close> does the same (same request URL, same
  result) for a string \<open>parameters\<close> with a leading \<open>?\<close> as for the same string without
  it, provided the rest of the string does not itself begin with \<open>??\<close>: the URL it
  logs and fetches is the endpoint's URL after one \<open>searchParams.append\<close> per pair of
  \<open>new URLSearchParams\<close> of the string without that \<open>?\<close>. When \<open>parameters\<close> is an
  object, the URL it logs and fetches is the endpoint's URL after one
  \<open>searchParams.append\<close>, in order, per pair that the entries yield: an entry whose
  value is \<open>undefined\<close> or \<open>null\<close> yields none and is left out of the query, an entry
  whose value is an array yields its key once per element, in order, with the element
  rendered by \<open>String\<close>, and any other entry yields its key once with its value rendered
  by \<open>String\<close>.\<close>

theorem query_parameters:
  "(\<not> prefix ''??'' s \<longrightarrow>
      getTodMarketsEndpoint L E endpoint (PValue (JStr (CHR ''?'' # s)))
        = getTodMarketsEndpoint L E endpoint (PValue (JStr s))) \<and>
   (URL_new L endpoint (DOMAIN_URL E) = Inr url0 \<longrightarrow>
      snd (getTodMarketsEndpoint L E endpoint (PValue (JStr (CHR ''?'' # s)))) =
        [ConsoleLog [LStr (''Fetching: ''
                      @ URL_toString L (append_all L url0 (URLSearchParams_new L s)))],
         FetchCall (URL_toString L (append_all L url0 (URLSearchParams_new L s)))
           (requestOptions (API_KEY E))] \<and>
      snd (getTodMarketsEndpoint L E endpoint (PValue (JObj es))) =
        [ConsoleLog [LStr (''Fetching: ''
                      @ URL_toString L (append_all L url0 (object_appends (JObj es))))],
         FetchCall (URL_toString L (append_all L url0 (object_appends (JObj es))))
           (requestOptions (API_KEY E))]) \<and>
   append_all L url [] = url \<and>
   append_all L url (ps @ [(k, x)]) = searchParams_append L (append_all L url ps) k x \<and>
   object_appends (JObj []) = [] \<and>
   (nullish v \<longrightarrow>
      object_appends (JObj (es1 @ (k, v) # es2))
        = object_appends (JObj es1) @ object_appends (JObj es2)) \<and>
   object_appends (JObj (es1 @ (k, JArr vals) # es2))
     = object_appends (JObj es1) @ map (\<lambda>val. (k, String_js val)) vals
         @ object_appends (JObj es2) \<and>
   (\<not> nullish w \<and> \<not> is_array w \<longrightarrow>
      object_appends (JObj (es1 @ (k, w) # es2))
        = object_appends (JObj es1) @ (k, String_js w) # object_appends (JObj es2)) \<and>
   parameter_appends L (PValue (JObj es)) = Inr (object_appends (JObj es)) \<and>
   getTodMarketsEndpoint L E endpoint (PValue (JObj es))
     = getTodMarketsEndpoint L E endpoint (PValue (JObj (filter (\<lambda>e. \<not> nullish (snd e)) es))) \<and>
   (distinct (map fst es) \<and> (k, JArr vals) \<in> set es \<longrightarrow>
      filter (\<lambda>p. fst p = k) (object_appends (JObj es)) = map (\<lambda>val. (k, String_js val)) vals)"
proof (intro conjI impI)
  assume "\<not> prefix ''??'' s"
  then show "getTodMarketsEndpoint L E endpoint (PValue (JStr (CHR ''?'' # s)))
        = getTodMarketsEndpoint L E endpoint (PValue (JStr s))"
    by (intro getTodMarketsEndpoint_cong leading_question_mark)
next
  assume u: "URL_new L endpoint (DOMAIN_URL E) = Inr url0"
  have "parameter_appends L (PValue (JStr (CHR ''?'' # s))) = Inr (URLSearchParams_new L s)"
    by (simp add: parameter_appends_def)
  from request_effects [OF u this]
  show "snd (getTodMarketsEndpoint L E endpoint (PValue (JStr (CHR ''?'' # s)))) =
        [ConsoleLog [LStr (''Fetching: ''
                      @ URL_toString L (append_all L url0 (URLSearchParams_new L s)))],
         FetchCall (URL_toString L (append_all L url0 (URLSearchParams_new L s)))
           (requestOptions (API_KEY E))]" .
  have "parameter_appends L (PValue (JObj es)) = Inr (object_appends (JObj es))"
    by (simp add: parameter_appends_def)
  from request_effects [OF u this]
  show "snd (getTodMarketsEndpoint L E endpoint (PValue (JObj es))) =
        [ConsoleLog [LStr (''Fetching: ''
                      @ URL_toString L (append_all L url0 (object_appends (JObj es))))],
         FetchCall (URL_toString L (append_all L url0 (object_appends (JObj es))))
           (requestOptions (API_KEY E))]" .
next
  show "append_all L url [] = url" by simp
  show "append_all L url (ps @ [(k, x)]) = searchParams_append L (append_all L url ps) k x"
    by (rule append_all_snoc)
  show "object_appends (JObj []) = []" by (simp add: object_appends_def)
  show "object_appends (JObj (es1 @ (k, JArr vals) # es2))
     = object_appends (JObj es1) @ map (\<lambda>val. (k, String_js val)) vals
         @ object_appends (JObj es2)"
    by (simp add: object_appends_split entry_appends_def)
  show "parameter_appends L (PValue (JObj es)) = Inr (object_appends (JObj es))"
    by (simp add: parameter_appends_def)
  show "getTodMarketsEndpoint L E endpoint (PValue (JObj es))
     = getTodMarketsEndpoint L E endpoint (PValue (JObj (filter (\<lambda>e. \<not> nullish (snd e)) es)))"
    by (rule getTodMarketsEndpoint_cong) (simp add: parameter_appends_def object_appends_filter)
next
  assume "nullish v"
  then show "object_appends (JObj (es1 @ (k, v) # es2))
        = object_appends (JObj es1) @ object_appends (JObj es2)"
    by (simp add: object_appends_split entry_appends_def nullish_def)
next
  assume "\<not> nullish w \<and> \<not> is_array w"
  then show "object_appends (JObj (es1 @ (k, w) # es2))
        = object_appends (JObj es1) @ (k, String_js w) # object_appends (JObj es2)"
    by (cases w) (simp_all add: object_appends_split entry_appends_def nullish_def)
next
  assume "distinct (map fst es) \<and> (k, JArr vals) \<in> set es"
  then show "filter (\<lambda>p. fst p = k) (object_appends (JObj es))
      = map (\<lambda>val. (k, String_js val)) vals"
    by (simp add: array_appends)
qed

theorem query_parameters_witness:
  "\<not> prefix ''??'' ''limit=10&filter=active'' \<and>
   getTodMarketsEndpoint scenario_lib example_env ''/company''
       (PValue (JStr ''?limit=10&filter=active''))
     = getTodMarketsEndpoint scenario_lib example_env ''/company''
         (PValue (JStr ''limit=10&filter=active'')) \<and>
   URL_new scenario_lib ''/company'' (DOMAIN_URL example_env)
     = Inr (''https://staging.todmarkets.com.au/company'', []) \<and>
   snd (getTodMarketsEndpoint scenario_lib example_env ''/company''
          (PValue (JStr ''?limit=10&filter=active''))) =
     [ConsoleLog
        [LStr ''Fetching: https://staging.todmarkets.com.au/company?limit=10&filter=active''],
      FetchCall ''https://staging.todmarkets.com.au/company?limit=10&filter=active''
        (requestOptions (Some ''secret''))] \<and>
   snd (getTodMarketsEndpoint scenario_lib example_env ''/company''
          (PValue (JObj [(''limit'', JNum ''10''), (''skip'', JNull),
                         (''tag'', JArr [JStr ''a'', JStr ''b''])]))) =
     [ConsoleLog [LStr ''Fetching: https://staging.todmarkets.com.au/company?limit=10&tag=a&tag=b''],
      FetchCall ''https://staging.todmarkets.com.au/company?limit=10&tag=a&tag=b''
        (requestOptions (Some ''secret''))] \<and>
   nullish JNull \<and>
   object_appends (JObj ([(''limit'', JNum ''10'')] @ (''skip'', JNull)
                           # [(''tag'', JArr [JStr ''a'', JStr ''b''])]))
     = [(''limit'', ''10''), (''tag'', ''a''), (''tag'', ''b'')] \<and>
   \<not> nullish (JNum ''10'') \<and> \<not> is_array (JNum ''10'') \<and>
   object_appends (JObj ([] @ (''limit'', JNum ''10'') # [(''skip'', JNull)]))
     = [(''limit'', ''10'')] \<and>
   distinct (map fst [(''limit'', JNum ''10''), (''skip'', JNull),
                      (''tag'', JArr [JStr ''a'', JStr ''b''])]) \<and>
   filter (\<lambda>p. fst p = ''tag'')
     (object_appends (JObj [(''limit'', JNum ''10''), (''skip'', JNull),
                            (''tag'', JArr [JStr ''a'', JStr ''b''])]))
     = [(''tag'', ''a''), (''tag'', ''b'')] \<and>
   getTodMarketsEndpoint scenario_lib example_env ''/company''
       (PValue (JObj [(''limit'', JNum ''10''), (''skip'', JNull),
                      (''tag'', JArr [JStr ''a'', JStr ''b''])]))
     = getTodMarketsEndpoint scenario_lib example_env ''/company''
         (PValue (JObj [(''limit'', JNum ''10''), (''tag'', JArr [JStr ''a'', JStr ''b''])]))"
proof -
  have a: "\<not> prefix ''??'' ''limit=10&filter=active''" by simp
  have u: "URL_new scenario_lib ''/company'' (DOMAIN_URL example_env)
     = Inr (''https://staging.todmarkets.com.au/company'', [])" by code_simp
  have d: "distinct (map fst [(''limit'', JNum ''10''), (''skip'', JNull),
                      (''tag'', JArr [JStr ''a'', JStr ''b''])])" by simp
  have n: "nullish JNull" "\<not> nullish (JNum ''10'')" "\<not> is_array (JNum ''10'')"
    by (simp_all add: nullish_def)
  have h1: "URL_toString scenario_lib
              (append_all scenario_lib (''https://staging.todmarkets.com.au/company'', [])
                 (URLSearchParams_new scenario_lib ''limit=10&filter=active''))
            = ''https://staging.todmarkets.com.au/company?limit=10&filter=active''"
    by code_simp
  have h2: "URL_toString scenario_lib
              (append_all scenario_lib (''https://staging.todmarkets.com.au/company'', [])
                 (object_appends (JObj [(''limit'', JNum ''10''), (''skip'', JNull),
                                        (''tag'', JArr [JStr ''a'', JStr ''b''])])))
            = ''https://staging.todmarkets.com.au/company?limit=10&tag=a&tag=b''"
    by code_simp
  have h3: "object_appends (JObj [(''limit'', JNum ''10'')]) = [(''limit'', ''10'')]"
    "object_appends (JObj [(''tag'', JArr [JStr ''a'', JStr ''b''])])
       = [(''tag'', ''a''), (''tag'', ''b'')]"
    "object_appends (JObj [(''skip'', JNull)]) = []"
    by code_simp+
  have h4: "object_appends (JObj []) = []" by code_simp
  have k: "API_KEY example_env = Some ''secret''" by (simp add: example_env_def)
  note q1 = query_parameters
    [where s = "''limit=10&filter=active''" and L = scenario_lib and E = example_env
       and endpoint = "''/company''"
       and ?url0.0 = "(''https://staging.todmarkets.com.au/company'', [])"
       and es = "[(''limit'', JNum ''10''), (''skip'', JNull),
                  (''tag'', JArr [JStr ''a'', JStr ''b''])]"
       and k = "''tag''" and vals = "[JStr ''a'', JStr ''b'']"
       and url = "(''https://staging.todmarkets.com.au/company'', [])" and ps = "[]"
       and x = "''a''" and v = JNull and w = "JNum ''10''"
       and ?es1.0 = "[(''limit'', JNum ''10''), (''skip'', JNull)]" and ?es2.0 = "[]"]
  note q2 = query_parameters
    [where s = "''limit=10&filter=active''" and L = scenario_lib and E = example_env
       and endpoint = "''/company''"
       and ?url0.0 = "(''https://staging.todmarkets.com.au/company'', [])"
       and es = "[]" and vals = "[]"
       and url = "(''https://staging.todmarkets.com.au/company'', [])" and ps = "[]"
       and x = "''a''" and w = "JNum ''10''"
       and k = "''skip''" and v = JNull
       and ?es1.0 = "[(''limit'', JNum ''10'')]"
       and ?es2.0 = "[(''tag'', JArr [JStr ''a'', JStr ''b''])]"]
  note q3 = query_parameters
    [where s = "''limit=10&filter=active''" and L = scenario_lib and E = example_env
       and endpoint = "''/company''"
       and ?url0.0 = "(''https://staging.todmarkets.com.au/company'', [])"
       and es = "[]" and vals = "[]"
       and url = "(''https://staging.todmarkets.com.au/company'', [])" and ps = "[]"
       and x = "''a''" and v = JNull
       and k = "''limit''" and w = "JNum ''10''"
       and ?es1.0 = "[]" and ?es2.0 = "[(''skip'', JNull)]"]
  note same = q1 [THEN conjunct1]
  note urls = q1 [THEN conjunct2, THEN conjunct1]
  note nulls = q2 [THEN conjunct2, THEN conjunct2, THEN conjunct2, THEN conjunct2, THEN conjunct2, THEN conjunct1]
  note scalar = q3 [THEN conjunct2, THEN conjunct2, THEN conjunct2, THEN conjunct2, THEN conjunct2, THEN conjunct2, THEN conjunct2, THEN conjunct1]
  note filtered = q1 [THEN conjunct2, THEN conjunct2, THEN conjunct2, THEN conjunct2, THEN conjunct2, THEN conjunct2, THEN conjunct2, THEN conjunct2, THEN conjunct2, THEN conjunct1]
  note arrays = q1 [THEN conjunct2, THEN conjunct2, THEN conjunct2, THEN conjunct2, THEN conjunct2, THEN conjunct2, THEN conjunct2, THEN conjunct2, THEN conjunct2, THEN conjunct2]
  have s1: "getTodMarketsEndpoint scenario_lib example_env ''/company''
       (PValue (JStr ''?limit=10&filter=active''))
     = getTodMarketsEndpoint scenario_lib example_env ''/company''
         (PValue (JStr ''limit=10&filter=active''))"
    using same a by blast
  have s2: "snd (getTodMarketsEndpoint scenario_lib example_env ''/company''
          (PValue (JStr ''?limit=10&filter=active''))) =
     [ConsoleLog
        [LStr ''Fetching: https://staging.todmarkets.com.au/company?limit=10&filter=active''],
      FetchCall ''https://staging.todmarkets.com.au/company?limit=10&filter=active''
        (requestOptions (Some ''secret''))]"
    using urls [rule_format, OF u, THEN conjunct1] by (simp add: h1 k)
  have s3: "snd (getTodMarketsEndpoint scenario_lib example_env ''/company''
          (PValue (JObj [(''limit'', JNum ''10''), (''skip'', JNull),
                         (''tag'', JArr [JStr ''a'', JStr ''b''])]))) =
     [ConsoleLog [LStr ''Fetching: https://staging.todmarkets.com.au/company?limit=10&tag=a&tag=b''],
      FetchCall ''https://staging.todmarkets.com.au/company?limit=10&tag=a&tag=b''
        (requestOptions (Some ''secret''))]"
    using urls [rule_format, OF u, THEN conjunct2] by (simp add: h2 k)
  have s4: "object_appends (JObj ([(''limit'', JNum ''10'')] @ (''skip'', JNull)
                           # [(''tag'', JArr [JStr ''a'', JStr ''b''])]))
     = [(''limit'', ''10''), (''tag'', ''a''), (''tag'', ''b'')]"
    using nulls [rule_format, OF n(1)] by (simp only: h3 append.simps)
  have s5: "object_appends (JObj ([] @ (''limit'', JNum ''10'') # [(''skip'', JNull)]))
     = [(''limit'', ''10'')]"
    using scalar [rule_format, OF conjI [OF n(2) n(3)]]
    by (simp only: h3 h4 append.simps String_js.simps)
  have s6: "filter (\<lambda>p. fst p = ''tag'')
     (object_appends (JObj [(''limit'', JNum ''10''), (''skip'', JNull),
                            (''tag'', JArr [JStr ''a'', JStr ''b''])]))
     = [(''tag'', ''a''), (''tag'', ''b'')]"
    using arrays [rule_format, OF conjI [OF d]] by simp
  have s7: "getTodMarketsEndpoint scenario_lib example_env ''/company''
       (PValue (JObj [(''limit'', JNum ''10''), (''skip'', JNull),
                      (''tag'', JArr [JStr ''a'', JStr ''b''])]))
     = getTodMarketsEndpoint scenario_lib example_env ''/company''
         (PValue (JObj [(''limit'', JNum ''10''), (''tag'', JArr [JStr ''a'', JStr ''b''])]))"
    using filtered by (simp add: nullish_def)
  from a u d n s1 s2 s3 s4 s5 s6 s7 show ?thesis by blast
qed

text \<open>The claim as stated fails: \<open>???a=1\<close> asks for the parameter \<open>?a\<close>, and the same
  string without its leading \<open>?\<close> asks for \<open>a\<close>.\<close>

theorem triple_question_mark_counterexample:
  "getTodMarketsEndpoint scenario_lib example_env ''/company'' (PValue (JStr ''???a=1'')) =
     (Inr ''scenario'',
      [ConsoleLog [LStr ''Fetching: https://staging.todmarkets.com.au/company?%3Fa=1''],
       FetchCall ''https://staging.todmarkets.com.au/company?%3Fa=1''
         (requestOptions (Some ''secret''))]) \<and>
   getTodMarketsEndpoint scenario_lib example_env ''/company'' (PValue (JStr ''??a=1'')) =
     (Inr ''scenario'',
      [ConsoleLog [LStr ''Fetching: https://staging.todmarkets.com.au/company?a=1''],
       FetchCall ''https://staging.todmarkets.com.au/company?a=1''
         (requestOptions (Some ''secret''))]) \<and>
   getTodMarketsEndpoint scenario_lib example_env ''/company'' (PValue (JStr ''???a=1''))
     \<noteq> getTodMarketsEndpoint scenario_lib example_env ''/company'' (PValue (JStr ''??a=1''))"
  by code_simp

text \<open>C10: \<open>getWebsocketDetails\<close> never rejects. Whatever the GET to \<open>/api/company\<close> does
  (the URL cannot be built, \<open>fetch\<close> throws, the status is not 2xx, the body cannot be
  read or parsed, \<open>data\<close> is missing), the promise resolves with \<open>undefined\<close>; when an
  error reached \<open>.catch\<close>, the last thing the function did was to log it. The value
  a caller awaits is the same in every outcome.\<close>

theorem getWebsocketDetails_never_rejects:
  "fst (getWebsocketDetails L E wd) = Inr JUndefined \<and>
   (company_data L E = Inl e \<longrightarrow>
      last (snd (snd (getWebsocketDetails L E wd))) =
        ConsoleError [LStr ''Error fetching websocket details:'', LErr e])"
  by (simp add: getWebsocketDetails_resolves getWebsocketDetails_fails)

theorem getWebsocketDetails_never_rejects_witness:
  "company_data failing_lib example_env = Inl (TypeError ''fetch failed'') \<and>
   fst (getWebsocketDetails failing_lib example_env websocketDetails_init) = Inr JUndefined \<and>
   last (snd (snd (getWebsocketDetails failing_lib example_env websocketDetails_init))) =
     ConsoleError [LStr ''Error fetching websocket details:'', LErr (TypeError ''fetch failed'')]"
proof -
  have h: "company_data failing_lib example_env = Inl (TypeError ''fetch failed'')"
    by code_simp
  show ?thesis
    using h getWebsocketDetails_never_rejects
      [of failing_lib example_env websocketDetails_init "TypeError ''fetch failed''"]
    by simp
qed

end
